theory Spec2Isabelle
  imports Complex_Main "HOL-Library.Word"
begin

section \<open>Data model of SceneManager.cpp\<close>

text \<open>
  The C++ \<open>float\<close> values of the scene (colours, angles, scale factors) are carried through
  the model as numbers of type \<open>real\<close>: SceneManager.cpp never computes with them itself, it
  only stores them and hands them to GLM and to the shader manager. All arithmetic on them
  happens inside GLM, whose functions are parameters of the model (record \<open>env\<close> below).
\<close>

type_synonym GLuint = "32 word"

datatype vec2 = Vec2 real real
datatype vec3 = Vec3 real real real
datatype vec4 = Vec4 real real real real

text \<open>A \<open>glm::mat4\<close> is four column vectors.\<close>

datatype mat4 = Mat4 vec4 vec4 vec4 vec4

text \<open>A C++ pointer member: either \<open>NULL\<close> or the address of a live object.\<close>

datatype pointer = NULL | Object

text \<open>\<open>TEXTURE_INFO\<close>: the element type of the array \<open>m_textureIDs\<close>. The field \<open>ID\<close> is
  passed as \<open>&m_textureIDs[i].ID\<close> to \<open>glGenTextures\<close>, so it is an unsigned 32-bit name.\<close>

record TEXTURE_INFO =
  tag :: string
  ID :: GLuint

text \<open>\<open>OBJECT_MATERIAL\<close>, with the fields that SceneManager.cpp reads and writes.\<close>

record OBJECT_MATERIAL =
  diffuseColor :: vec3
  specularColor :: vec3
  shininess :: real
  tag :: string

text \<open>The members of class \<open>SceneManager\<close>. The counter \<open>m_loadedTextures\<close> starts at 0 and
  is only ever incremented by one, and an array access fails long before it could wrap,
  so it is a natural number here.\<close>

record SceneManager =
  m_pShaderManager :: pointer
  m_basicMeshes :: pointer
  m_textureIDs :: "TEXTURE_INFO list"
  m_loadedTextures :: nat
  m_objectMaterials :: "OBJECT_MATERIAL list"

section \<open>The collaborators: shader manager, OpenGL, stb_image, ShapeMeshes\<close>

datatype tex_pname = GL_TEXTURE_WRAP_S | GL_TEXTURE_WRAP_T | GL_TEXTURE_MIN_FILTER | GL_TEXTURE_MAG_FILTER
datatype tex_param = GL_REPEAT | GL_LINEAR
datatype tex_format = GL_RGB8 | GL_RGBA8
datatype mesh = PlaneMesh | BoxMesh | CylinderMesh | TaperedCylinderMesh | TorusMesh
  | SphereMesh | HalfSphereMesh

text \<open>
  Every call that SceneManager.cpp makes on a collaborator is recorded, in order, in a
  trace. The constructors are the calls of the shader manager (\<open>setMat4Value\<close> \dots), of
  stb_image, of OpenGL (with \<open>glDeleteTextures\<close>, which belongs to the texture API although
  the file never calls it) and of \<open>ShapeMeshes\<close>. \<open>glGenTextures n\<close> records a call
  \<open>glGenTextures(1, &x)\<close> that stored the name \<open>n\<close> in \<open>x\<close>. Both overloads of
  \<open>setVec3Value\<close> (a \<open>glm::vec3\<close>, or three floats) are the same constructor. Output to
  \<open>std::cout\<close> is not recorded.
\<close>

datatype call =
    setMat4Value string mat4
  | setIntValue string int
  | setBoolValue string bool
  | setFloatValue string real
  | setVec2Value string vec2
  | setVec3Value string vec3
  | setVec4Value string vec4
  | setSampler2DValue string int
  | stbi_set_flip_vertically_on_load bool
  | stbi_image_free
  | glGenTextures GLuint
  | glDeleteTextures GLuint
  | glBindTexture GLuint
  | glActiveTexture nat
  | glTexParameteri tex_pname tex_param
  | glTexImage2D tex_format int int
  | glGenerateMipmap
  | LoadMesh mesh
  | DrawMesh mesh

text \<open>What \<open>stbi_load\<close> reports about a decoded file.\<close>

record stb_image =
  width :: int
  height :: int
  colorChannels :: int

text \<open>
  The behaviour of the libraries is a parameter:
  \<^item> \<open>stbi_load\<close>: the decoded image of a file name, or \<open>None\<close> when \<open>stbi_load\<close> returns a null
    pointer;
  \<^item> \<open>gen_texture_name\<close>: the texture name that \<open>glGenTextures\<close> hands out after the calls
    made so far;
  \<^item> \<open>glm_scale\<close>, \<open>glm_rotate\<close>, \<open>glm_translate\<close>, \<open>glm_radians\<close> and \<open>glm_mul\<close> (the
    \<open>operator*\<close> of \<open>glm::mat4\<close>): the GLM functions, in whatever arithmetic they use;
  \<^item> \<open>local_OBJECT_MATERIAL\<close>: the contents of a local variable declared as
    \<open>OBJECT_MATERIAL material;\<close> with no initialiser (the struct is declared in the header).
\<close>

record env =
  stbi_load :: "string \<Rightarrow> stb_image option"
  gen_texture_name :: "call list \<Rightarrow> GLuint"
  glm_scale :: "vec3 \<Rightarrow> mat4"
  glm_rotate :: "real \<Rightarrow> vec3 \<Rightarrow> mat4"
  glm_translate :: "vec3 \<Rightarrow> mat4"
  glm_radians :: "real \<Rightarrow> real"
  glm_mul :: "mat4 \<Rightarrow> mat4 \<Rightarrow> mat4"
  local_OBJECT_MATERIAL :: OBJECT_MATERIAL

text \<open>
  A method of \<open>SceneManager\<close> runs on the object and the trace of calls made so far. Where
  C++ leaves the behaviour undefined (a call through a null pointer, an array index outside
  the array) the model returns an error instead of a state.
\<close>

datatype error = NullDereference | OutOfBounds

type_synonym machine = "SceneManager \<times> call list"
type_synonym stmt = "machine \<Rightarrow> error + machine"

text \<open>A sequence of statements: each runs on the state the previous one left; the first
  error ends the run.\<close>

fun seq :: "stmt list \<Rightarrow> stmt" where
  "seq [] m = Inr m"
| "seq (f # fs) m = (case f m of Inl e \<Rightarrow> Inl e | Inr m' \<Rightarrow> seq fs m')"

text \<open>The names of the uniforms (the anonymous namespace at the top of the file).\<close>

definition g_ModelName :: string where "g_ModelName = ''model''"
definition g_ColorValueName :: string where "g_ColorValueName = ''objectColor''"
definition g_TextureValueName :: string where "g_TextureValueName = ''objectTexture''"
definition g_UseTextureName :: string where "g_UseTextureName = ''bUseTexture''"
definition g_UseLightingName :: string where "g_UseLightingName = ''bUseLighting''"

section \<open>Constructor and destructor\<close>

definition SceneManager_ctor :: "pointer \<Rightarrow> SceneManager" where
  "SceneManager_ctor pShaderManager =
     \<lparr> m_pShaderManager = pShaderManager,
       m_basicMeshes = Object,
       m_textureIDs = replicate 16 \<lparr> TEXTURE_INFO.tag = ''/0'', ID = - 1 \<rparr>,
       m_loadedTextures = 0,
       m_objectMaterials = [] \<rparr>"

section \<open>The texture registry\<close>

text \<open>The end of \<open>CreateGLTexture\<close>, after the pixels were uploaded: lines 114 to 126.\<close>

definition register_texture :: "GLuint \<Rightarrow> string \<Rightarrow> machine \<Rightarrow> error + (bool \<times> machine)" where
  "register_texture textureID tg m =
     (case m of (s, t) \<Rightarrow>
        let t' = t @ [glGenerateMipmap, stbi_image_free, glBindTexture 0] in
        if m_loadedTextures s < length (m_textureIDs s) then
          Inr (True,
               (s\<lparr> m_textureIDs := (m_textureIDs s)
                      [m_loadedTextures s := \<lparr> TEXTURE_INFO.tag = tg, ID = textureID \<rparr>],
                   m_loadedTextures := m_loadedTextures s + 1 \<rparr>, t'))
        else Inl OutOfBounds)"

definition CreateGLTexture :: "env \<Rightarrow> string \<Rightarrow> string \<Rightarrow> machine \<Rightarrow> error + (bool \<times> machine)" where
  "CreateGLTexture e filename tg m =
     (case m of (s, t) \<Rightarrow>
        let t1 = t @ [stbi_set_flip_vertically_on_load True] in
        (case stbi_load e filename of
           None \<Rightarrow> Inr (False, (s, t1))
         | Some img \<Rightarrow>
            let textureID = gen_texture_name e t1;
                t2 = t1 @ [glGenTextures textureID, glBindTexture textureID,
                           glTexParameteri GL_TEXTURE_WRAP_S GL_REPEAT,
                           glTexParameteri GL_TEXTURE_WRAP_T GL_REPEAT,
                           glTexParameteri GL_TEXTURE_MIN_FILTER GL_LINEAR,
                           glTexParameteri GL_TEXTURE_MAG_FILTER GL_LINEAR] in
            if colorChannels img = 3 then
              register_texture textureID tg
                (s, t2 @ [glTexImage2D GL_RGB8 (width img) (height img)])
            else if colorChannels img = 4 then
              register_texture textureID tg
                (s, t2 @ [glTexImage2D GL_RGBA8 (width img) (height img)])
            else Inr (False, (s, t2))))"

text \<open>The loop of \<open>BindGLTextures\<close>, from loop index \<open>i\<close>.\<close>

function BindGLTextures_loop :: "nat \<Rightarrow> machine \<Rightarrow> error + machine" where
  "BindGLTextures_loop i (s, t) =
     (if i < m_loadedTextures s then
        (if i < length (m_textureIDs s) then
           BindGLTextures_loop (i + 1)
             (s, t @ [glActiveTexture i, glBindTexture (ID (m_textureIDs s ! i))])
         else Inl OutOfBounds)
      else Inr (s, t))"
  by pat_completeness auto
termination
  by (relation "measure (\<lambda>(i, s, t). m_loadedTextures s - i)") auto

definition BindGLTextures :: stmt where
  "BindGLTextures = BindGLTextures_loop 0"

text \<open>The loop of \<open>DestroyGLTextures\<close>: \<open>glGenTextures(1, &m_textureIDs[i].ID)\<close> stores a
  newly generated name in the slot.\<close>

function DestroyGLTextures_loop :: "env \<Rightarrow> nat \<Rightarrow> machine \<Rightarrow> error + machine" where
  "DestroyGLTextures_loop e i (s, t) =
     (if i < m_loadedTextures s then
        (if i < length (m_textureIDs s) then
           (let n = gen_texture_name e t in
            DestroyGLTextures_loop e (i + 1)
              (s\<lparr> m_textureIDs := (m_textureIDs s)[i := (m_textureIDs s ! i)\<lparr> ID := n \<rparr>] \<rparr>,
               t @ [glGenTextures n]))
         else Inl OutOfBounds)
      else Inr (s, t))"
  by pat_completeness auto
termination
  by (relation "measure (\<lambda>(e, i, s, t). m_loadedTextures s - i)") auto

definition DestroyGLTextures :: "env \<Rightarrow> stmt" where
  "DestroyGLTextures e = DestroyGLTextures_loop e 0"

text \<open>The destructor: \<open>delete m_basicMeshes\<close> is not a call on a collaborator of the trace.\<close>

definition SceneManager_dtor :: "env \<Rightarrow> stmt" where
  "SceneManager_dtor e m =
     (case m of (s, t) \<Rightarrow>
        DestroyGLTextures e (s\<lparr> m_pShaderManager := NULL, m_basicMeshes := NULL \<rparr>, t))"

text \<open>The \<open>while\<close> loops of \<open>FindTextureID\<close> and \<open>FindTextureSlot\<close>, with their three local
  variables. The stored \<open>ID\<close> is converted to the \<open>int\<close> that \<open>FindTextureID\<close> returns.\<close>

function FindTextureID_loop :: "SceneManager \<Rightarrow> string \<Rightarrow> int \<Rightarrow> nat \<Rightarrow> bool \<Rightarrow> error + int" where
  "FindTextureID_loop s tg textureID index bFound =
     (if index < m_loadedTextures s \<and> bFound = False then
        (if index < length (m_textureIDs s) then
           (if TEXTURE_INFO.tag (m_textureIDs s ! index) = tg then
              FindTextureID_loop s tg (sint (ID (m_textureIDs s ! index))) index True
            else FindTextureID_loop s tg textureID (index + 1) bFound)
         else Inl OutOfBounds)
      else Inr textureID)"
  by pat_completeness auto
termination
  by (relation "measure (\<lambda>(s, tg, textureID, index, bFound).
        2 * (m_loadedTextures s - index) + (if bFound then 0 else 1))") auto

definition FindTextureID :: "SceneManager \<Rightarrow> string \<Rightarrow> error + int" where
  "FindTextureID s tg = FindTextureID_loop s tg (- 1) 0 False"

function FindTextureSlot_loop :: "SceneManager \<Rightarrow> string \<Rightarrow> int \<Rightarrow> nat \<Rightarrow> bool \<Rightarrow> error + int" where
  "FindTextureSlot_loop s tg textureSlot index bFound =
     (if index < m_loadedTextures s \<and> bFound = False then
        (if index < length (m_textureIDs s) then
           (if TEXTURE_INFO.tag (m_textureIDs s ! index) = tg then
              FindTextureSlot_loop s tg (int index) index True
            else FindTextureSlot_loop s tg textureSlot (index + 1) bFound)
         else Inl OutOfBounds)
      else Inr textureSlot)"
  by pat_completeness auto
termination
  by (relation "measure (\<lambda>(s, tg, textureSlot, index, bFound).
        2 * (m_loadedTextures s - index) + (if bFound then 0 else 1))") auto

definition FindTextureSlot :: "SceneManager \<Rightarrow> string \<Rightarrow> error + int" where
  "FindTextureSlot s tg = FindTextureSlot_loop s tg (- 1) 0 False"

section \<open>The material list\<close>

text \<open>The \<open>while\<close> loop of \<open>FindMaterial\<close>; \<open>material\<close> is the reference parameter.\<close>

function FindMaterial_loop ::
  "OBJECT_MATERIAL list \<Rightarrow> string \<Rightarrow> nat \<Rightarrow> bool \<Rightarrow> OBJECT_MATERIAL \<Rightarrow> OBJECT_MATERIAL" where
  "FindMaterial_loop ms tg index bFound material =
     (if index < length ms \<and> bFound = False then
        (if tag (ms ! index) = tg then
           FindMaterial_loop ms tg index True
             (material\<lparr> diffuseColor := diffuseColor (ms ! index),
                        specularColor := specularColor (ms ! index),
                        shininess := shininess (ms ! index) \<rparr>)
         else FindMaterial_loop ms tg (index + 1) bFound material)
      else material)"
  by pat_completeness auto
termination
  by (relation "measure (\<lambda>(ms, tg, index, bFound, material).
        2 * (length ms - index) + (if bFound then 0 else 1))") auto

text \<open>\<open>FindMaterial\<close> returns its \<open>bool\<close> and the contents of \<open>material\<close> afterwards.\<close>

definition FindMaterial :: "SceneManager \<Rightarrow> string \<Rightarrow> OBJECT_MATERIAL \<Rightarrow> bool \<times> OBJECT_MATERIAL" where
  "FindMaterial s tg material =
     (if length (m_objectMaterials s) = 0 then (False, material)
      else (True, FindMaterial_loop (m_objectMaterials s) tg 0 False material))"

section \<open>Transformations and shading state\<close>

definition SetTransformations :: "env \<Rightarrow> vec3 \<Rightarrow> real \<Rightarrow> real \<Rightarrow> real \<Rightarrow> vec3 \<Rightarrow> stmt" where
  "SetTransformations e scaleXYZ XrotationDegrees YrotationDegrees ZrotationDegrees positionXYZ m =
     (case m of (s, t) \<Rightarrow>
        let scale = glm_scale e scaleXYZ;
            rotationX = glm_rotate e (glm_radians e XrotationDegrees) (Vec3 1 0 0);
            rotationY = glm_rotate e (glm_radians e YrotationDegrees) (Vec3 0 1 0);
            rotationZ = glm_rotate e (glm_radians e ZrotationDegrees) (Vec3 0 0 1);
            translation = glm_translate e positionXYZ;
            modelView = glm_mul e (glm_mul e (glm_mul e (glm_mul e translation rotationZ)
                           rotationY) rotationX) scale
        in if NULL \<noteq> m_pShaderManager s then Inr (s, t @ [setMat4Value g_ModelName modelView])
           else Inr (s, t))"

definition SetShaderColor :: "real \<Rightarrow> real \<Rightarrow> real \<Rightarrow> real \<Rightarrow> stmt" where
  "SetShaderColor redColorValue greenColorValue blueColorValue alphaValue m =
     (case m of (s, t) \<Rightarrow>
        let currentColor = Vec4 redColorValue greenColorValue blueColorValue alphaValue in
        if NULL \<noteq> m_pShaderManager s then
          Inr (s, t @ [setIntValue g_UseTextureName 0, setVec4Value g_ColorValueName currentColor])
        else Inr (s, t))"

definition SetShaderTexture :: "string \<Rightarrow> stmt" where
  "SetShaderTexture textureTag m =
     (case m of (s, t) \<Rightarrow>
        if NULL \<noteq> m_pShaderManager s then
          (case FindTextureSlot s textureTag of
             Inl err \<Rightarrow> Inl err
           | Inr textureID \<Rightarrow>
               Inr (s, t @ [setIntValue g_UseTextureName 1,
                            setSampler2DValue g_TextureValueName textureID]))
        else Inr (s, t))"

definition SetTextureUVScale :: "real \<Rightarrow> real \<Rightarrow> stmt" where
  "SetTextureUVScale u v m =
     (case m of (s, t) \<Rightarrow>
        if NULL \<noteq> m_pShaderManager s then Inr (s, t @ [setVec2Value ''UVscale'' (Vec2 u v)])
        else Inr (s, t))"

definition SetShaderMaterial :: "env \<Rightarrow> string \<Rightarrow> stmt" where
  "SetShaderMaterial e materialTag m =
     (case m of (s, t) \<Rightarrow>
        if length (m_objectMaterials s) > 0 then
          (case FindMaterial s materialTag (local_OBJECT_MATERIAL e) of
             (bReturn, material) \<Rightarrow>
               if bReturn = True then
                 (if m_pShaderManager s = NULL then Inl NullDereference
                  else Inr (s, t @ [setVec3Value ''material.diffuseColor'' (diffuseColor material),
                                    setVec3Value ''material.specularColor'' (specularColor material),
                                    setFloatValue ''material.shininess'' (shininess material)]))
               else Inr (s, t))
        else Inr (s, t))"

section \<open>Preparing the scene\<close>

text \<open>\<open>bReturn = CreateGLTexture(...)\<close> in \<open>LoadSceneTextures\<close>: the result is stored in a
  local variable that is never read.\<close>

definition bReturn_assign :: "(machine \<Rightarrow> error + (bool \<times> machine)) \<Rightarrow> stmt" where
  "bReturn_assign f m = (case f m of Inl err \<Rightarrow> Inl err | Inr (bReturn, m') \<Rightarrow> Inr m')"

definition LoadSceneTextures :: "env \<Rightarrow> stmt" where
  "LoadSceneTextures e = seq
     [bReturn_assign (CreateGLTexture e ''textures/cork.jpg'' ''bottle-cork''),
      bReturn_assign (CreateGLTexture e ''textures/draught-living-death.jpg'' ''draught-potion''),
      bReturn_assign (CreateGLTexture e ''textures/twine-black.png'' ''black-twine''),
      bReturn_assign (CreateGLTexture e ''textures/wood-seamless.jpg'' ''table''),
      bReturn_assign (CreateGLTexture e ''textures/twine-brown.png'' ''brown-twine''),
      bReturn_assign (CreateGLTexture e ''textures/wall.jpg'' ''background''),
      bReturn_assign (CreateGLTexture e ''textures/amortentia.jpg'' ''love-potion''),
      bReturn_assign (CreateGLTexture e ''textures/felix.jpg'' ''lucky-potion''),
      bReturn_assign (CreateGLTexture e ''textures/thunderbrew.jpg'' ''stun-potion''),
      BindGLTextures]"

definition woodMaterial :: OBJECT_MATERIAL where
  "woodMaterial = \<lparr> diffuseColor = Vec3 0.2 0.2 0.3, specularColor = Vec3 0 0 0,
                    shininess = 0.1, tag = ''wood'' \<rparr>"

definition glassMaterial :: OBJECT_MATERIAL where
  "glassMaterial = \<lparr> diffuseColor = Vec3 0.478 0.478 0.478, specularColor = Vec3 1 1 1,
                     shininess = 98, tag = ''glass'' \<rparr>"

definition wallMaterial :: OBJECT_MATERIAL where
  "wallMaterial = \<lparr> diffuseColor = Vec3 0.8 0.8 0.9, specularColor = Vec3 0 0 0,
                    shininess = 2, tag = ''wall'' \<rparr>"

definition twineMaterial :: OBJECT_MATERIAL where
  "twineMaterial = \<lparr> diffuseColor = Vec3 0.1 0.1 0.1, specularColor = Vec3 0.1 0.1 0.1,
                     shininess = 0.2, tag = ''twine'' \<rparr>"

definition liquidMaterial :: OBJECT_MATERIAL where
  "liquidMaterial = \<lparr> diffuseColor = Vec3 0.329 0.212 0.4, specularColor = Vec3 0.1 0.05 0.1,
                      shininess = 0.5, tag = ''liquid'' \<rparr>"

definition GlowingFMaterial :: OBJECT_MATERIAL where
  "GlowingFMaterial = \<lparr> diffuseColor = Vec3 0.929 0.961 0.424, specularColor = Vec3 0.1 0.1 0.1,
                        shininess = 0.7, tag = ''felixGlow'' \<rparr>"

definition GlowingLMaterial :: OBJECT_MATERIAL where
  "GlowingLMaterial = \<lparr> diffuseColor = Vec3 0.922 0.435 0.773, specularColor = Vec3 0.1 0.1 0.1,
                        shininess = 0.7, tag = ''loveGlow'' \<rparr>"

text \<open>\<open>m_objectMaterials.push_back(material)\<close>.\<close>

definition m_objectMaterials_push_back :: "OBJECT_MATERIAL \<Rightarrow> stmt" where
  "m_objectMaterials_push_back material m =
     (case m of (s, t) \<Rightarrow> Inr (s\<lparr> m_objectMaterials := m_objectMaterials s @ [material] \<rparr>, t))"

definition DefineObjectMaterials :: stmt where
  "DefineObjectMaterials = seq
     [m_objectMaterials_push_back woodMaterial,
      m_objectMaterials_push_back glassMaterial,
      m_objectMaterials_push_back wallMaterial,
      m_objectMaterials_push_back twineMaterial,
      m_objectMaterials_push_back liquidMaterial,
      m_objectMaterials_push_back GlowingFMaterial,
      m_objectMaterials_push_back GlowingLMaterial]"

text \<open>A call \<open>m_pShaderManager->...\<close> that is not guarded by a test of the pointer.\<close>

definition m_pShaderManager_call :: "call \<Rightarrow> stmt" where
  "m_pShaderManager_call c m =
     (case m of (s, t) \<Rightarrow>
        if m_pShaderManager s = NULL then Inl NullDereference else Inr (s, t @ [c]))"

definition SetupSceneLights :: stmt where
  "SetupSceneLights = seq
     [m_pShaderManager_call (setBoolValue g_UseLightingName True),
      m_pShaderManager_call (setVec3Value ''directionalLight.direction'' (Vec3 (- 0.05) (- 0.3) (- 0.1))),
      m_pShaderManager_call (setVec3Value ''directionalLight.ambient'' (Vec3 0.05 0.05 0.05)),
      m_pShaderManager_call (setVec3Value ''directionalLight.diffuse'' (Vec3 0.6 0.6 0.6)),
      m_pShaderManager_call (setVec3Value ''directionalLight.specular'' (Vec3 0 0 0)),
      m_pShaderManager_call (setBoolValue ''directionalLight.bActive'' True),
      m_pShaderManager_call (setVec3Value ''pointLights[0].position'' (Vec3 (- 4) 8 0)),
      m_pShaderManager_call (setVec3Value ''pointLights[0].ambient'' (Vec3 0.05 0.05 0.05)),
      m_pShaderManager_call (setVec3Value ''pointLights[0].diffuse'' (Vec3 0.3 0.3 0.3)),
      m_pShaderManager_call (setVec3Value ''pointLights[0].specular'' (Vec3 0.1 0.1 0.1)),
      m_pShaderManager_call (setBoolValue ''pointLights[0].bActive'' True),
      m_pShaderManager_call (setVec3Value ''pointLights[1].position'' (Vec3 4 8 0)),
      m_pShaderManager_call (setVec3Value ''pointLights[1].ambient'' (Vec3 0.05 0.05 0.05)),
      m_pShaderManager_call (setVec3Value ''pointLights[1].diffuse'' (Vec3 0.3 0.3 0.3)),
      m_pShaderManager_call (setVec3Value ''pointLights[1].specular'' (Vec3 0.1 0.1 0.1)),
      m_pShaderManager_call (setBoolValue ''pointLights[1].bActive'' True),
      m_pShaderManager_call (setVec3Value ''pointLights[2].position'' (Vec3 3.8 5.5 4)),
      m_pShaderManager_call (setVec3Value ''pointLights[2].ambient'' (Vec3 0.05 0.05 0.05)),
      m_pShaderManager_call (setVec3Value ''pointLights[2].diffuse'' (Vec3 0.2 0.2 0.2)),
      m_pShaderManager_call (setVec3Value ''pointLights[2].specular'' (Vec3 0.8 0.8 0.8)),
      m_pShaderManager_call (setBoolValue ''pointLights[2].bActive'' True),
      m_pShaderManager_call (setVec3Value ''pointLights[3].position'' (Vec3 5 6.5 6)),
      m_pShaderManager_call (setVec3Value ''pointLights[3].ambient'' (Vec3 0.05 0.05 0.05)),
      m_pShaderManager_call (setVec3Value ''pointLights[3].diffuse'' (Vec3 0.2 0.2 0.2)),
      m_pShaderManager_call (setVec3Value ''pointLights[3].specular'' (Vec3 0.8 0.8 0.8)),
      m_pShaderManager_call (setBoolValue ''pointLights[3].bActive'' True)]"

text \<open>\<open>m_basicMeshes->Load...Mesh()\<close> and \<open>m_basicMeshes->Draw...Mesh()\<close>.\<close>

definition m_basicMeshes_Load :: "mesh \<Rightarrow> stmt" where
  "m_basicMeshes_Load k m =
     (case m of (s, t) \<Rightarrow>
        if m_basicMeshes s = NULL then Inl NullDereference else Inr (s, t @ [LoadMesh k]))"

definition m_basicMeshes_Draw :: "mesh \<Rightarrow> stmt" where
  "m_basicMeshes_Draw k m =
     (case m of (s, t) \<Rightarrow>
        if m_basicMeshes s = NULL then Inl NullDereference else Inr (s, t @ [DrawMesh k]))"

definition PrepareScene :: "env \<Rightarrow> stmt" where
  "PrepareScene e = seq
     [LoadSceneTextures e,
      DefineObjectMaterials,
      SetupSceneLights,
      m_basicMeshes_Load PlaneMesh,
      m_basicMeshes_Load CylinderMesh,
      m_basicMeshes_Load TaperedCylinderMesh,
      m_basicMeshes_Load TorusMesh,
      m_basicMeshes_Load SphereMesh,
      m_basicMeshes_Load BoxMesh]"

section \<open>Rendering the scene\<close>

text \<open>
  Each render method is the sequence of its calls. The local variables \<open>scaleXYZ\<close>,
  \<open>XrotationDegrees\<close>, \<open>YrotationDegrees\<close>, \<open>ZrotationDegrees\<close> and \<open>positionXYZ\<close> are
  assigned before every call of \<open>SetTransformations\<close>, which is shown with the values they
  hold at that call and the line of the call in SceneManager.cpp.
\<close>

definition RenderBackground :: "env \<Rightarrow> stmt" where
  "RenderBackground e = seq
     [\<comment> \<open>line 595\<close> SetTransformations e (Vec3 20 0.5 (- 10)) 90 0 0 (Vec3 0 0 (- 9.1)),
      SetShaderColor 0.929 0.835 0.784 1,
      SetShaderTexture ''background'',
      SetTextureUVScale 5 5,
      SetShaderMaterial e ''wall'',
      m_basicMeshes_Draw PlaneMesh]"

definition RenderTable :: "env \<Rightarrow> stmt" where
  "RenderTable e = seq
     [\<comment> \<open>line 634\<close> SetTransformations e (Vec3 20 0.6 8) 0 0 0 (Vec3 0 (- 0.3) (- 5)),
      SetShaderTexture ''table'',
      SetTextureUVScale 1 1,
      SetShaderMaterial e ''wood'',
      m_basicMeshes_Draw BoxMesh]"

definition RenderDraughtLivingDeath :: "env \<Rightarrow> stmt" where
  "RenderDraughtLivingDeath e = seq
     [\<comment> \<open>line 674\<close> SetTransformations e (Vec3 0.8 3 0.7) 0 0 0 (Vec3 0 0 (- 7)),
      SetShaderTexture ''draught-potion'',
      SetTextureUVScale 1 1,
      SetShaderMaterial e ''liquid'',
      m_basicMeshes_Draw CylinderMesh,
      \<comment> \<open>line 704\<close> SetTransformations e (Vec3 0.8 0.5 0.7) 0 0 0 (Vec3 0 3 (- 7)),
      SetShaderColor 0.827 0.824 0.902 0.8,
      SetShaderMaterial e ''glass'',
      m_basicMeshes_Draw TaperedCylinderMesh,
      \<comment> \<open>line 731\<close> SetTransformations e (Vec3 0.4 1.2 0.4) 0 0 0 (Vec3 0 3 (- 7)),
      SetShaderColor 0.827 0.824 0.902 0.8,
      SetShaderMaterial e ''glass'',
      m_basicMeshes_Draw CylinderMesh,
      \<comment> \<open>line 758\<close> SetTransformations e (Vec3 0.4 0.5 0.5) 90 0 0 (Vec3 0 4.2 (- 7)),
      SetShaderColor 0.827 0.824 0.902 0.8,
      SetShaderMaterial e ''glass'',
      m_basicMeshes_Draw TorusMesh,
      \<comment> \<open>line 785\<close> SetTransformations e (Vec3 0.4 0.5 0.2) 90 0 0 (Vec3 0 4 (- 7)),
      SetShaderTexture ''black-twine'',
      SetTextureUVScale 1 1,
      SetShaderMaterial e ''twine'',
      m_basicMeshes_Draw TorusMesh,
      \<comment> \<open>line 815\<close> SetTransformations e (Vec3 0.4 0.5 0.2) (- 92) 0 0 (Vec3 0 3.9 (- 7)),
      SetShaderTexture ''black-twine'',
      SetTextureUVScale 1 1,
      SetShaderMaterial e ''twine'',
      m_basicMeshes_Draw TorusMesh,
      \<comment> \<open>line 845\<close> SetTransformations e (Vec3 0.4 0.5 0.2) 89 0 0 (Vec3 0 3.8 (- 7)),
      SetShaderTexture ''black-twine'',
      SetTextureUVScale 1 1,
      SetShaderMaterial e ''twine'',
      m_basicMeshes_Draw TorusMesh,
      \<comment> \<open>line 876\<close> SetTransformations e (Vec3 0.4 0.5 0.2) (- 95) 0 0 (Vec3 0 3.7 (- 7)),
      SetShaderTexture ''black-twine'',
      SetTextureUVScale 1 1,
      SetShaderMaterial e ''twine'',
      m_basicMeshes_Draw TorusMesh,
      \<comment> \<open>line 907\<close> SetTransformations e (Vec3 0.4 0.5 0.2) 90 0 0 (Vec3 0 3.6 (- 7)),
      SetShaderTexture ''black-twine'',
      SetTextureUVScale 1 1,
      SetShaderMaterial e ''twine'',
      m_basicMeshes_Draw TorusMesh,
      \<comment> \<open>line 938\<close> SetTransformations e (Vec3 0.3 0.4 0.4) 0 0 0 (Vec3 0 4 (- 7)),
      SetShaderTexture ''bottle-cork'',
      SetTextureUVScale 1 1,
      SetShaderMaterial e ''twine'',
      m_basicMeshes_Draw CylinderMesh]"

definition RenderAmortentia :: "env \<Rightarrow> stmt" where
  "RenderAmortentia e = seq
     [\<comment> \<open>line 979\<close> SetTransformations e (Vec3 0.8 1.8 1) 0 (- 5) 0 (Vec3 1.6 0 (- 6.5)),
      SetShaderTexture ''love-potion'',
      SetTextureUVScale 1 1,
      SetShaderMaterial e ''loveGlow'',
      m_basicMeshes_Draw CylinderMesh,
      \<comment> \<open>line 1010\<close> SetTransformations e (Vec3 0.8 0.5 1) 0 0 0 (Vec3 1.6 1.8 (- 6.5)),
      SetShaderColor 0.827 0.824 0.902 0.8,
      SetShaderMaterial e ''glass'',
      m_basicMeshes_Draw TaperedCylinderMesh,
      \<comment> \<open>line 1038\<close> SetTransformations e (Vec3 0.4 0.8 0.5) 0 0 0 (Vec3 1.6 2 (- 6.5)),
      SetShaderColor 0.827 0.824 0.902 0.8,
      SetShaderMaterial e ''glass'',
      m_basicMeshes_Draw CylinderMesh,
      \<comment> \<open>line 1066\<close> SetTransformations e (Vec3 0.4 0.5 0.5) 90 0 0 (Vec3 1.6 2.8 (- 6.5)),
      SetShaderColor 0.827 0.824 0.902 0.8,
      SetShaderMaterial e ''glass'',
      m_basicMeshes_Draw TorusMesh,
      \<comment> \<open>line 1094\<close> SetTransformations e (Vec3 0.3 0.2 0.4) 0 0 0 (Vec3 1.6 2.8 (- 6.5)),
      SetShaderTexture ''bottle-cork'',
      SetShaderMaterial e ''twine'',
      m_basicMeshes_Draw CylinderMesh,
      \<comment> \<open>line 1124\<close> SetTransformations e (Vec3 0.4 0.5 0.3) 90 0 0 (Vec3 1.6 2.4 (- 6.5)),
      SetShaderTexture ''brown-twine'',
      SetTextureUVScale 1 1,
      SetShaderMaterial e ''twine'',
      m_basicMeshes_Draw TorusMesh,
      \<comment> \<open>line 1155\<close> SetTransformations e (Vec3 0.4 0.5 0.3) 93 0 0 (Vec3 1.6 2.3 (- 6.5)),
      SetShaderTexture ''brown-twine'',
      SetTextureUVScale 1 1,
      SetShaderMaterial e ''twine'',
      m_basicMeshes_Draw TorusMesh,
      \<comment> \<open>line 1186\<close> SetTransformations e (Vec3 0.4 0.5 0.3) (- 94) 0 0 (Vec3 1.6 2.5 (- 6.5)),
      SetShaderTexture ''brown-twine'',
      SetTextureUVScale 1 1,
      SetShaderMaterial e ''twine'',
      m_basicMeshes_Draw TorusMesh,
      \<comment> \<open>line 1217\<close> SetTransformations e (Vec3 0.4 0.5 0.3) (- 91) 0 0 (Vec3 1.6 2.6 (- 6.5)),
      SetShaderTexture ''brown-twine'',
      SetTextureUVScale 1 1,
      SetShaderMaterial e ''twine'',
      m_basicMeshes_Draw TorusMesh]"

definition RenderThunderbrew :: "env \<Rightarrow> stmt" where
  "RenderThunderbrew e = seq
     [\<comment> \<open>line 1257\<close> SetTransformations e (Vec3 0.8 2.5 0.7) 0 0 0 (Vec3 3.2 0 (- 6)),
      SetShaderTexture ''stun-potion'',
      SetTextureUVScale 1 1,
      SetShaderMaterial e ''liquid'',
      m_basicMeshes_Draw CylinderMesh,
      \<comment> \<open>line 1288\<close> SetTransformations e (Vec3 0.8 0.5 0.7) 0 0 0 (Vec3 3.2 2.5 (- 6)),
      SetShaderColor 0.827 0.824 0.902 0.8,
      SetShaderMaterial e ''glass'',
      m_basicMeshes_Draw TaperedCylinderMesh,
      \<comment> \<open>line 1316\<close> SetTransformations e (Vec3 0.4 1 0.4) 0 0 0 (Vec3 3.2 2.5 (- 6)),
      SetShaderColor 0.827 0.824 0.902 0.8,
      SetShaderMaterial e ''glass'',
      m_basicMeshes_Draw CylinderMesh,
      \<comment> \<open>line 1344\<close> SetTransformations e (Vec3 0.4 0.5 0.5) 90 0 0 (Vec3 3.2 3.5 (- 6)),
      SetShaderColor 0.827 0.824 0.902 0.8,
      SetShaderMaterial e ''glass'',
      m_basicMeshes_Draw TorusMesh,
      \<comment> \<open>line 1372\<close> SetTransformations e (Vec3 0.4 0.5 0.2) 90 0 0 (Vec3 3.2 3 (- 6)),
      SetShaderTexture ''brown-twine'',
      SetTextureUVScale 1 1,
      SetShaderMaterial e ''twine'',
      m_basicMeshes_Draw TorusMesh,
      \<comment> \<open>line 1403\<close> SetTransformations e (Vec3 0.4 0.5 0.2) (- 92) 0 0 (Vec3 3.2 3.3 (- 6)),
      SetShaderTexture ''brown-twine'',
      SetTextureUVScale 1 1,
      SetShaderMaterial e ''twine'',
      m_basicMeshes_Draw TorusMesh,
      \<comment> \<open>line 1434\<close> SetTransformations e (Vec3 0.4 0.5 0.2) 89 0 0 (Vec3 3.2 3.1 (- 6)),
      SetShaderTexture ''brown-twine'',
      SetTextureUVScale 1 1,
      SetShaderMaterial e ''twine'',
      m_basicMeshes_Draw TorusMesh,
      \<comment> \<open>line 1465\<close> SetTransformations e (Vec3 0.4 0.5 0.2) (- 95) 0 0 (Vec3 3.2 3.2 (- 6)),
      SetShaderTexture ''brown-twine'',
      SetTextureUVScale 1 1,
      SetShaderMaterial e ''twine'',
      m_basicMeshes_Draw TorusMesh,
      \<comment> \<open>line 1496\<close> SetTransformations e (Vec3 0.3 0.4 0.4) 0 0 0 (Vec3 3.2 3.3 (- 6)),
      SetShaderTexture ''bottle-cork'',
      SetShaderMaterial e ''twine'',
      m_basicMeshes_Draw CylinderMesh]"

definition RenderFelix :: "env \<Rightarrow> stmt" where
  "RenderFelix e = seq
     [\<comment> \<open>line 1535\<close> SetTransformations e (Vec3 1.3 1.4 1.3) 0 0 0 (Vec3 (- 2.7) 1 (- 6)),
      SetShaderTexture ''lucky-potion'',
      SetTextureUVScale 1 1,
      SetShaderMaterial e ''felixGlow'',
      m_basicMeshes_Draw SphereMesh,
      \<comment> \<open>line 1566\<close> SetTransformations e (Vec3 0.8 1.3 0.8) 0 0 0 (Vec3 (- 2.7) 1.5 (- 6)),
      SetShaderTexture ''lucky-potion'',
      SetTextureUVScale 1 1,
      SetShaderMaterial e ''felixGlow'',
      m_basicMeshes_Draw TaperedCylinderMesh,
      \<comment> \<open>line 1597\<close> SetTransformations e (Vec3 0.4 1 0.4) 0 0 0 (Vec3 (- 2.7) 2.6 (- 6)),
      SetShaderColor 0.827 0.824 0.902 0.8,
      SetShaderMaterial e ''glass'',
      m_basicMeshes_Draw CylinderMesh,
      \<comment> \<open>line 1625\<close> SetTransformations e (Vec3 0.5 0.4 0.5) 90 0 0 (Vec3 (- 2.7) 3.6 (- 6)),
      SetShaderColor 0.827 0.824 0.902 0.8,
      SetShaderMaterial e ''glass'',
      m_basicMeshes_Draw TorusMesh,
      \<comment> \<open>line 1653\<close> SetTransformations e (Vec3 0.3 0.4 0.4) 0 0 0 (Vec3 (- 2.7) 3.5 (- 6)),
      SetShaderTexture ''bottle-cork'',
      SetShaderMaterial e ''twine'',
      m_basicMeshes_Draw CylinderMesh,
      \<comment> \<open>line 1683\<close> SetTransformations e (Vec3 0.5 0.5 1) 0 0 0 (Vec3 (- 3.2) 3 (- 6)),
      SetShaderColor 0.827 0.824 0.902 0.8,
      SetShaderMaterial e ''glass'',
      m_basicMeshes_Draw TorusMesh,
      \<comment> \<open>line 1711\<close> SetTransformations e (Vec3 0.4 0.4 0.2) 90 0 0 (Vec3 (- 2.7) 3.3 (- 6)),
      SetShaderTexture ''brown-twine'',
      SetTextureUVScale 1 1,
      SetShaderMaterial e ''twine'',
      m_basicMeshes_Draw TorusMesh,
      \<comment> \<open>line 1742\<close> SetTransformations e (Vec3 0.4 0.4 0.2) 90 0 0 (Vec3 (- 2.7) 3.4 (- 6)),
      SetShaderTexture ''brown-twine'',
      SetTextureUVScale 1 1,
      SetShaderMaterial e ''twine'',
      m_basicMeshes_Draw TorusMesh,
      \<comment> \<open>line 1773\<close> SetTransformations e (Vec3 0.4 0.4 0.2) 90 0 0 (Vec3 (- 2.7) 3.45 (- 6)),
      SetShaderTexture ''brown-twine'',
      SetTextureUVScale 1 1,
      SetShaderMaterial e ''twine'',
      m_basicMeshes_Draw TorusMesh,
      \<comment> \<open>line 1804\<close> SetTransformations e (Vec3 0.4 0.4 0.2) 90 0 0 (Vec3 (- 2.7) 3.5 (- 6)),
      SetShaderTexture ''brown-twine'',
      SetTextureUVScale 1 1,
      SetShaderMaterial e ''twine'',
      m_basicMeshes_Draw TorusMesh]"

definition RenderFlooPowder :: "env \<Rightarrow> stmt" where
  "RenderFlooPowder e = seq
     [\<comment> \<open>line 1843\<close> SetTransformations e (Vec3 1.2 1.8 1.2) 0 0 0 (Vec3 (- 1.5) 0 (- 3.8)),
      SetShaderColor 0.827 0.824 0.902 0.8,
      SetShaderMaterial e ''glass'',
      m_basicMeshes_Draw CylinderMesh,
      \<comment> \<open>line 1871\<close> SetTransformations e (Vec3 1.2 0.5 1.2) 0 0 0 (Vec3 (- 1.5) 1.8 (- 3.8)),
      SetShaderColor 0.827 0.824 0.902 0.8,
      SetShaderMaterial e ''glass'',
      m_basicMeshes_Draw HalfSphereMesh,
      \<comment> \<open>line 1899\<close> SetTransformations e (Vec3 1.1 1.1 0.3) 90 0 0 (Vec3 (- 1.5) 1.8 (- 3.8)),
      SetShaderColor 0.827 0.824 0.902 0.8,
      SetShaderMaterial e ''glass'',
      m_basicMeshes_Draw TorusMesh,
      \<comment> \<open>line 1927\<close> SetTransformations e (Vec3 0.4 0.6 0.4) 0 0 0 (Vec3 (- 1.5) 2 (- 3.8)),
      SetShaderColor 0.827 0.824 0.902 0.8,
      SetShaderMaterial e ''glass'',
      m_basicMeshes_Draw CylinderMesh]"
definition RenderScene :: "env \<Rightarrow> stmt" where
  "RenderScene e = seq
     [RenderBackground e,
      RenderTable e,
      RenderDraughtLivingDeath e,
      RenderAmortentia e,
      RenderThunderbrew e,
      RenderFelix e,
      RenderFlooPowder e]"

section \<open>A concrete environment\<close>

text \<open>
  To run the model on concrete inputs the parameters need values. Here GLM is read in exact
  arithmetic: \<open>glm::scale\<close>, \<open>glm::rotate\<close> and \<open>glm::translate\<close> of
  \<open>glm/gtx/transform.hpp\<close> as the matrices of the GLM manual, and \<open>operator*\<close> as the matrix
  product, column by column.
\<close>

fun vec4_scale :: "real \<Rightarrow> vec4 \<Rightarrow> vec4" where
  "vec4_scale k (Vec4 x y z w) = Vec4 (k * x) (k * y) (k * z) (k * w)"

fun vec4_add :: "vec4 \<Rightarrow> vec4 \<Rightarrow> vec4" where
  "vec4_add (Vec4 x y z w) (Vec4 x' y' z' w') = Vec4 (x + x') (y + y') (z + z') (w + w')"

fun mat4_apply :: "mat4 \<Rightarrow> vec4 \<Rightarrow> vec4" where
  "mat4_apply (Mat4 c0 c1 c2 c3) (Vec4 x y z w) =
     vec4_add (vec4_add (vec4_add (vec4_scale x c0) (vec4_scale y c1)) (vec4_scale z c2))
              (vec4_scale w c3)"

fun mat4_mul :: "mat4 \<Rightarrow> mat4 \<Rightarrow> mat4" where
  "mat4_mul A (Mat4 b0 b1 b2 b3) =
     Mat4 (mat4_apply A b0) (mat4_apply A b1) (mat4_apply A b2) (mat4_apply A b3)"

fun exact_scale :: "vec3 \<Rightarrow> mat4" where
  "exact_scale (Vec3 x y z) = Mat4 (Vec4 x 0 0 0) (Vec4 0 y 0 0) (Vec4 0 0 z 0) (Vec4 0 0 0 1)"

fun exact_translate :: "vec3 \<Rightarrow> mat4" where
  "exact_translate (Vec3 x y z) =
     Mat4 (Vec4 1 0 0 0) (Vec4 0 1 0 0) (Vec4 0 0 1 0) (Vec4 x y z 1)"

fun exact_rotate :: "real \<Rightarrow> vec3 \<Rightarrow> mat4" where
  "exact_rotate a (Vec3 vx vy vz) =
     (let c = cos a; s = sin a;
          n = sqrt (vx * vx + vy * vy + vz * vz);
          x = vx / n; y = vy / n; z = vz / n;
          tx = (1 - c) * x; ty = (1 - c) * y; tz = (1 - c) * z
      in Mat4 (Vec4 (c + tx * x) (tx * y + s * z) (tx * z - s * y) 0)
              (Vec4 (ty * x - s * z) (c + ty * y) (ty * z + s * x) 0)
              (Vec4 (tz * x + s * y) (tz * y - s * x) (c + tz * z) 0)
              (Vec4 0 0 0 1))"

definition exact_radians :: "real \<Rightarrow> real" where
  "exact_radians degrees = degrees * pi / 180"

text \<open>An image loader that knows the nine texture files of the scene (the \<open>.jpg\<close> files with
  three channels, the \<open>.png\<close> files with four), a one-channel file \<open>textures/gray.png\<close>, and
  no other file.\<close>

definition sample_stbi_load :: "string \<Rightarrow> stb_image option" where
  "sample_stbi_load filename =
     (if filename \<in> {''textures/cork.jpg'', ''textures/draught-living-death.jpg'',
                      ''textures/wood-seamless.jpg'', ''textures/wall.jpg'',
                      ''textures/amortentia.jpg'', ''textures/felix.jpg'',
                      ''textures/thunderbrew.jpg''}
      then Some \<lparr> width = 1024, height = 1024, colorChannels = 3 \<rparr>
      else if filename \<in> {''textures/twine-black.png'', ''textures/twine-brown.png''}
      then Some \<lparr> width = 512, height = 512, colorChannels = 4 \<rparr>
      else if filename = ''textures/gray.png''
      then Some \<lparr> width = 64, height = 64, colorChannels = 1 \<rparr>
      else None)"

text \<open>A driver that numbers the texture names it generates 1, 2, 3, \dots\<close>

fun generated :: "call list \<Rightarrow> nat" where
  "generated [] = 0"
| "generated (glGenTextures n # t) = Suc (generated t)"
| "generated (c # t) = generated t"

definition sample_gen_texture_name :: "call list \<Rightarrow> GLuint" where
  "sample_gen_texture_name t = of_nat (Suc (generated t))"

definition sample_env :: env where
  "sample_env =
     \<lparr> stbi_load = sample_stbi_load,
       gen_texture_name = sample_gen_texture_name,
       glm_scale = exact_scale,
       glm_rotate = exact_rotate,
       glm_translate = exact_translate,
       glm_radians = exact_radians,
       glm_mul = mat4_mul,
       local_OBJECT_MATERIAL = \<lparr> diffuseColor = Vec3 0 0 0, specularColor = Vec3 0 0 0,
                                 shininess = 0, tag = [] \<rparr> \<rparr>"

section \<open>States and predicates used in the properties\<close>

text \<open>A later, different definition of a material tagged \<open>wood\<close>.\<close>

definition duplicate_wood :: OBJECT_MATERIAL where
  "duplicate_wood = \<lparr> diffuseColor = Vec3 0.9 0.9 0.9, specularColor = Vec3 0.5 0.5 0.5,
                      shininess = 30, tag = ''wood'' \<rparr>"

text \<open>A scene manager whose material list holds the wood material only.\<close>

definition one_material_scene :: SceneManager where
  "one_material_scene = (SceneManager_ctor Object)\<lparr> m_objectMaterials := [woodMaterial] \<rparr>"

text \<open>A scene manager after two successful loads: \<open>bottle-cork\<close> with texture name 1 in
  slot 0, \<open>black-twine\<close> with texture name 2 in slot 1.\<close>

definition two_texture_scene :: SceneManager where
  "two_texture_scene = (SceneManager_ctor Object)
     \<lparr> m_textureIDs := (replicate 16 \<lparr> TEXTURE_INFO.tag = ''/0'', ID = - 1 \<rparr>)
          [0 := \<lparr> TEXTURE_INFO.tag = ''bottle-cork'', ID = 1 \<rparr>,
           1 := \<lparr> TEXTURE_INFO.tag = ''black-twine'', ID = 2 \<rparr>],
       m_loadedTextures := 2 \<rparr>"

text \<open>The invariant of the texture registry: an array of 16 entries, at most 16 of them
  occupied, and no tag twice among the occupied ones.\<close>

definition occupied_tags :: "SceneManager \<Rightarrow> string list" where
  "occupied_tags s = map TEXTURE_INFO.tag (take (m_loadedTextures s) (m_textureIDs s))"

definition texture_registry_inv :: "SceneManager \<Rightarrow> bool" where
  "texture_registry_inv s \<longleftrightarrow>
     length (m_textureIDs s) = 16 \<and> m_loadedTextures s \<le> 16 \<and> distinct (occupied_tags s)"

text \<open>The files that \<open>CreateGLTexture\<close> takes to the end: decoded, with 3 or 4 channels.\<close>

definition supported :: "env \<Rightarrow> string \<Rightarrow> bool" where
  "supported e filename =
     (case stbi_load e filename of
        None \<Rightarrow> False
      | Some img \<Rightarrow> colorChannels img = 3 \<or> colorChannels img = 4)"

text \<open>The file names and tags of \<open>LoadSceneTextures\<close> and the materials of
  \<open>DefineObjectMaterials\<close>, in the order of the calls.\<close>

definition scene_textures :: "(string \<times> string) list" where
  "scene_textures =
     [(''textures/cork.jpg'', ''bottle-cork''),
      (''textures/draught-living-death.jpg'', ''draught-potion''),
      (''textures/twine-black.png'', ''black-twine''),
      (''textures/wood-seamless.jpg'', ''table''),
      (''textures/twine-brown.png'', ''brown-twine''),
      (''textures/wall.jpg'', ''background''),
      (''textures/amortentia.jpg'', ''love-potion''),
      (''textures/felix.jpg'', ''lucky-potion''),
      (''textures/thunderbrew.jpg'', ''stun-potion'')]"

definition scene_materials :: "OBJECT_MATERIAL list" where
  "scene_materials = [woodMaterial, glassMaterial, wallMaterial, twineMaterial, liquidMaterial,
                      GlowingFMaterial, GlowingLMaterial]"

text \<open>The calls that a statement makes when it runs on the object \<open>s\<close>, starting from an
  empty trace.\<close>

definition calls_of :: "stmt \<Rightarrow> SceneManager \<Rightarrow> call list" where
  "calls_of f s = (case f (s, []) of Inr (s', out) \<Rightarrow> out | Inl err \<Rightarrow> [])"

text \<open>What the render methods rely on: both collaborators present and the count of loaded
  textures inside the array.\<close>

definition ready_to_render :: "SceneManager \<Rightarrow> bool" where
  "ready_to_render s \<longleftrightarrow>
     m_pShaderManager s \<noteq> NULL \<and> m_basicMeshes s \<noteq> NULL \<and>
     m_loadedTextures s \<le> length (m_textureIDs s)"

text \<open>The object that \<open>PrepareScene\<close> leaves when it runs on the newly constructed scene
  manager in the concrete environment: nine textures, named 1 to 9, and seven materials.\<close>

definition prepared_scene :: SceneManager where
  "prepared_scene = (SceneManager_ctor Object)
     \<lparr> m_textureIDs := (replicate 16 \<lparr> TEXTURE_INFO.tag = ''/0'', ID = - 1 \<rparr>)
          [0 := \<lparr> TEXTURE_INFO.tag = ''bottle-cork'', ID = 1 \<rparr>,
           1 := \<lparr> TEXTURE_INFO.tag = ''draught-potion'', ID = 2 \<rparr>,
           2 := \<lparr> TEXTURE_INFO.tag = ''black-twine'', ID = 3 \<rparr>,
           3 := \<lparr> TEXTURE_INFO.tag = ''table'', ID = 4 \<rparr>,
           4 := \<lparr> TEXTURE_INFO.tag = ''brown-twine'', ID = 5 \<rparr>,
           5 := \<lparr> TEXTURE_INFO.tag = ''background'', ID = 6 \<rparr>,
           6 := \<lparr> TEXTURE_INFO.tag = ''love-potion'', ID = 7 \<rparr>,
           7 := \<lparr> TEXTURE_INFO.tag = ''lucky-potion'', ID = 8 \<rparr>,
           8 := \<lparr> TEXTURE_INFO.tag = ''stun-potion'', ID = 9 \<rparr>],
       m_loadedTextures := 9,
       m_objectMaterials := scene_materials \<rparr>"

text \<open>The six calls at the end of \<open>PrepareScene\<close> that load the meshes.\<close>

definition load_meshes :: stmt where
  "load_meshes = seq
     [m_basicMeshes_Load PlaneMesh,
      m_basicMeshes_Load CylinderMesh,
      m_basicMeshes_Load TaperedCylinderMesh,
      m_basicMeshes_Load TorusMesh,
      m_basicMeshes_Load SphereMesh,
      m_basicMeshes_Load BoxMesh]"

text \<open>A scene manager with all 16 slots occupied, under 16 different tags.\<close>

definition full_scene :: SceneManager where
  "full_scene = (SceneManager_ctor Object)
     \<lparr> m_textureIDs := map (\<lambda>k. \<lparr> TEXTURE_INFO.tag = replicate (Suc k) CHR ''t'', ID = of_nat (Suc k) \<rparr>)
                           [0..<16],
       m_loadedTextures := 16 \<rparr>"

text \<open>The concrete environment with an image loader that finds no file.\<close>

definition no_files_env :: env where
  "no_files_env = sample_env\<lparr> stbi_load := (\<lambda>filename. None) \<rparr>"

text \<open>The concrete environment with a driver that hands out the texture name
  \<open>0xFFFFFFFF\<close>, and the scene manager after one load in it.\<close>

definition last_name_env :: env where
  "last_name_env = sample_env\<lparr> gen_texture_name := (\<lambda>t. - 1) \<rparr>"

definition last_name_scene :: SceneManager where
  "last_name_scene = (SceneManager_ctor Object)
     \<lparr> m_textureIDs := (replicate 16 \<lparr> TEXTURE_INFO.tag = ''/0'', ID = - 1 \<rparr>)
          [0 := \<lparr> TEXTURE_INFO.tag = ''bottle-cork'', ID = - 1 \<rparr>],
       m_loadedTextures := 1 \<rparr>"

section \<open>Material lookup\<close>

declare FindMaterial_loop.simps [simp del]

lemma FindMaterial_loop_found: "FindMaterial_loop ms tg index True material = material"
  by (subst FindMaterial_loop.simps) simp

lemma FindMaterial_loop_first:
  assumes "k < length ms" "tag (ms ! k) = tg" "\<forall>j. index \<le> j \<and> j < k \<longrightarrow> tag (ms ! j) \<noteq> tg"
    "index \<le> k"
  shows "FindMaterial_loop ms tg index False material =
         material\<lparr> diffuseColor := diffuseColor (ms ! k),
                   specularColor := specularColor (ms ! k),
                   shininess := shininess (ms ! k) \<rparr>"
  using assms
proof (induction "k - index" arbitrary: index)
  case 0
  then have "index = k" by simp
  with 0 show ?case
    by (subst FindMaterial_loop.simps) (simp add: FindMaterial_loop_found)
next
  case (Suc d)
  then have lt: "index < k" and ne: "tag (ms ! index) \<noteq> tg" by auto
  have "FindMaterial_loop ms tg index False material =
        FindMaterial_loop ms tg (index + 1) False material"
    using lt ne Suc.prems(1) by (subst FindMaterial_loop.simps) simp
  also have "\<dots> = material\<lparr> diffuseColor := diffuseColor (ms ! k),
                   specularColor := specularColor (ms ! k),
                   shininess := shininess (ms ! k) \<rparr>"
    using Suc.hyps(1)[of "index + 1"] Suc.hyps(2) Suc.prems lt by auto
  finally show ?case .
qed

lemma FindMaterial_loop_absent:
  assumes "\<forall>j. index \<le> j \<and> j < length ms \<longrightarrow> tag (ms ! j) \<noteq> tg"
  shows "FindMaterial_loop ms tg index False material = material"
  using assms
proof (induction "length ms - index" arbitrary: index)
  case 0
  then show ?case by (subst FindMaterial_loop.simps) simp
next
  case (Suc d)
  then have lt: "index < length ms" and ne: "tag (ms ! index) \<noteq> tg" by auto
  have "FindMaterial_loop ms tg index False material =
        FindMaterial_loop ms tg (index + 1) False material"
    using lt ne by (subst FindMaterial_loop.simps) simp
  also have "\<dots> = material"
    using Suc.hyps(1)[of "index + 1"] Suc.hyps(2) Suc.prems by auto
  finally show ?case .
qed

text \<open>
  Claim C7. Material lookup is first-match-wins: when the list holds an entry \<open>first\<close> with
  the tag and no entry before it has that tag, \<open>FindMaterial\<close> copies the diffuse colour, the
  specular colour and the shininess of \<open>first\<close> into \<open>material\<close>, whatever entries come
  later in the list, duplicates of the tag included.
\<close>

theorem FindMaterial_first_match_wins:
  assumes "m_objectMaterials s = earlier @ first # later"
    and "tag first = tg"
    and "\<forall>x \<in> set earlier. tag x \<noteq> tg"
  shows "FindMaterial s tg material =
         (True, material\<lparr> diffuseColor := diffuseColor first,
                          specularColor := specularColor first,
                          shininess := shininess first \<rparr>)"
proof -
  let ?ms = "m_objectMaterials s"
  let ?k = "length earlier"
  have k: "?k < length ?ms" and at: "?ms ! ?k = first"
    using assms(1) by simp_all
  have before: "\<forall>j. 0 \<le> j \<and> j < ?k \<longrightarrow> tag (?ms ! j) \<noteq> tg"
    using assms(1,3) by (simp add: nth_append)
  have "FindMaterial_loop ?ms tg 0 False material =
        material\<lparr> diffuseColor := diffuseColor (?ms ! ?k),
                  specularColor := specularColor (?ms ! ?k),
                  shininess := shininess (?ms ! ?k) \<rparr>"
    using k at assms(2) before by (intro FindMaterial_loop_first) simp_all
  moreover have "m_objectMaterials s \<noteq> []"
    using assms(1) by simp
  ultimately show ?thesis
    using at by (simp add: FindMaterial_def)
qed

text \<open>Wood defined second, a duplicate wood defined fourth: the lookup yields the values
  of the first definition.\<close>

theorem FindMaterial_first_match_wins_witness:
  "FindMaterial ((SceneManager_ctor Object)\<lparr> m_objectMaterials :=
        [glassMaterial, woodMaterial, wallMaterial, duplicate_wood] \<rparr>)
      ''wood'' (local_OBJECT_MATERIAL sample_env)
   = (True, \<lparr> diffuseColor = Vec3 0.2 0.2 0.3, specularColor = Vec3 0 0 0,
              shininess = 0.1, tag = [] \<rparr>)"
  using FindMaterial_first_match_wins [of
      "(SceneManager_ctor Object)\<lparr> m_objectMaterials :=
         [glassMaterial, woodMaterial, wallMaterial, duplicate_wood] \<rparr>"
      "[glassMaterial]" woodMaterial "[wallMaterial, duplicate_wood]" "''wood''"
      "local_OBJECT_MATERIAL sample_env"]
  by (simp add: woodMaterial_def glassMaterial_def sample_env_def)

text \<open>
  Claim C1. \<open>SetShaderMaterial\<close> is meant to push the material uniforms only when the tag is
  found. \<open>FindMaterial\<close> returns \<open>true\<close> for every non-empty list, found or not, so with the
  list holding only \<open>wood\<close> the lookup of \<open>gold\<close> reports success and \<open>SetShaderMaterial\<close>
  makes its three calls on the shader manager, with the contents of the local variable
  that \<open>FindMaterial\<close> never wrote.
\<close>

theorem SetShaderMaterial_unknown_tag:
  "fst (FindMaterial one_material_scene ''gold'' (local_OBJECT_MATERIAL e)) = True \<and>
   SetShaderMaterial e ''gold'' (one_material_scene, []) =
     Inr (one_material_scene,
          [setVec3Value ''material.diffuseColor'' (diffuseColor (local_OBJECT_MATERIAL e)),
           setVec3Value ''material.specularColor'' (specularColor (local_OBJECT_MATERIAL e)),
           setFloatValue ''material.shininess'' (shininess (local_OBJECT_MATERIAL e))])"
proof -
  have "FindMaterial_loop [woodMaterial] ''gold'' 0 False (local_OBJECT_MATERIAL e)
        = local_OBJECT_MATERIAL e"
    by (rule FindMaterial_loop_absent) (simp add: woodMaterial_def)
  then show ?thesis
    by (simp add: SetShaderMaterial_def FindMaterial_def one_material_scene_def
        SceneManager_ctor_def)
qed

text \<open>The two cases in which \<open>SetShaderMaterial\<close> does what is meant: an empty list, where
  it makes no call, and a tag that the list holds, where it pushes the values of the first
  entry with that tag.\<close>

lemma SetShaderMaterial_empty_list:
  assumes "m_objectMaterials s = []"
  shows "SetShaderMaterial e materialTag (s, t) = Inr (s, t)"
  using assms by (simp add: SetShaderMaterial_def)

lemma SetShaderMaterial_found:
  assumes "m_objectMaterials s = earlier @ first # later"
    and "tag first = materialTag"
    and "\<forall>x \<in> set earlier. tag x \<noteq> materialTag"
    and "m_pShaderManager s \<noteq> NULL"
  shows "SetShaderMaterial e materialTag (s, t) =
         Inr (s, t @ [setVec3Value ''material.diffuseColor'' (diffuseColor first),
                      setVec3Value ''material.specularColor'' (specularColor first),
                      setFloatValue ''material.shininess'' (shininess first)])"
proof -
  let ?ms = "m_objectMaterials s"
  have k: "length earlier < length ?ms" and at: "?ms ! length earlier = first"
    using assms(1) by simp_all
  have before: "\<forall>j. 0 \<le> j \<and> j < length earlier \<longrightarrow> tag (?ms ! j) \<noteq> materialTag"
    using assms(1,3) by (simp add: nth_append)
  have "FindMaterial_loop ?ms materialTag 0 False (local_OBJECT_MATERIAL e) =
        (local_OBJECT_MATERIAL e)\<lparr> diffuseColor := diffuseColor (?ms ! length earlier),
                  specularColor := specularColor (?ms ! length earlier),
                  shininess := shininess (?ms ! length earlier) \<rparr>"
    using k at assms(2) before by (intro FindMaterial_loop_first) simp_all
  then show ?thesis
    using assms(1,4) at by (simp add: SetShaderMaterial_def FindMaterial_def)
qed

section \<open>The guards on the shader manager\<close>

text \<open>
  Claim C10. With a null shader manager, \<open>SetTransformations\<close>, \<open>SetShaderColor\<close>,
  \<open>SetShaderTexture\<close> and \<open>SetTextureUVScale\<close> return without a call and without a change
  of state, while \<open>SetShaderMaterial\<close> calls through the null pointer whenever the tag is
  that of an entry of the (then non-empty) material list.
\<close>

theorem NULL_shader_manager:
  assumes "m_pShaderManager s = NULL"
  shows "SetTransformations e scaleXYZ xdeg ydeg zdeg positionXYZ (s, t) = Inr (s, t) \<and>
         SetShaderColor r g b a (s, t) = Inr (s, t) \<and>
         SetShaderTexture textureTag (s, t) = Inr (s, t) \<and>
         SetTextureUVScale u v (s, t) = Inr (s, t) \<and>
         (materialTag \<in> tag ` set (m_objectMaterials s) \<longrightarrow>
            SetShaderMaterial e materialTag (s, t) = Inl NullDereference)"
proof -
  have "SetShaderMaterial e materialTag (s, t) = Inl NullDereference"
    if "materialTag \<in> tag ` set (m_objectMaterials s)"
  proof -
    from that have ne: "m_objectMaterials s \<noteq> []" by auto
    then show ?thesis
      using assms by (simp add: SetShaderMaterial_def FindMaterial_def)
  qed
  then show ?thesis
    using assms
    by (simp add: SetTransformations_def SetShaderColor_def SetShaderTexture_def
        SetTextureUVScale_def Let_def)
qed

theorem NULL_shader_manager_witness:
  "m_pShaderManager (SceneManager_ctor NULL\<lparr> m_objectMaterials := [woodMaterial] \<rparr>) = NULL \<and>
   ''wood'' \<in> tag ` set (m_objectMaterials
       (SceneManager_ctor NULL\<lparr> m_objectMaterials := [woodMaterial] \<rparr>)) \<and>
   SetTransformations sample_env (Vec3 2 1 1) 0 90 0 (Vec3 0 5 0)
      (SceneManager_ctor NULL\<lparr> m_objectMaterials := [woodMaterial] \<rparr>, [])
     = Inr (SceneManager_ctor NULL\<lparr> m_objectMaterials := [woodMaterial] \<rparr>, []) \<and>
   SetShaderMaterial sample_env ''wood''
      (SceneManager_ctor NULL\<lparr> m_objectMaterials := [woodMaterial] \<rparr>, []) = Inl NullDereference"
  using NULL_shader_manager [of "SceneManager_ctor NULL\<lparr> m_objectMaterials := [woodMaterial] \<rparr>"
      sample_env "Vec3 2 1 1" 0 90 0 "Vec3 0 5 0" "[]" 0 0 0 0 "''x''" 0 0 "''wood''"]
  by (simp add: SceneManager_ctor_def woodMaterial_def)

section \<open>Loading a texture\<close>

text \<open>
  Claim C5. When the image cannot be decoded, or is decoded with a channel count other
  than 3 and 4, \<open>CreateGLTexture\<close> returns \<open>false\<close> and leaves the object as it was: the
  array \<open>m_textureIDs\<close> and the count \<open>m_loadedTextures\<close> are unchanged.
\<close>

theorem CreateGLTexture_failure:
  assumes "stbi_load e filename = None \<or>
           (\<exists>img. stbi_load e filename = Some img \<and> colorChannels img \<noteq> 3 \<and> colorChannels img \<noteq> 4)"
  shows "\<exists>t'. CreateGLTexture e filename tg (s, t) = Inr (False, (s, t'))"
  using assms by (auto simp: CreateGLTexture_def Let_def)

text \<open>A file that is not found, and a grey-scale file with one channel.\<close>

theorem CreateGLTexture_failure_witness:
  "stbi_load sample_env ''textures/missing.jpg'' = None \<and>
   (\<exists>t'. CreateGLTexture sample_env ''textures/missing.jpg'' ''missing'' (two_texture_scene, [])
          = Inr (False, (two_texture_scene, t'))) \<and>
   stbi_load sample_env ''textures/gray.png'' =
     Some \<lparr> width = 64, height = 64, colorChannels = 1 \<rparr> \<and>
   (\<exists>t'. CreateGLTexture sample_env ''textures/gray.png'' ''gray'' (two_texture_scene, [])
          = Inr (False, (two_texture_scene, t')))"
proof -
  have missing: "stbi_load sample_env ''textures/missing.jpg'' = None"
    by (simp add: sample_env_def sample_stbi_load_def)
  have gray: "stbi_load sample_env ''textures/gray.png'' =
     Some \<lparr> width = 64, height = 64, colorChannels = 1 \<rparr>"
    by (simp add: sample_env_def sample_stbi_load_def)
  have "\<exists>t'. CreateGLTexture sample_env ''textures/missing.jpg'' ''missing'' (two_texture_scene, [])
          = Inr (False, (two_texture_scene, t'))"
    using missing by (intro CreateGLTexture_failure) simp
  moreover
  have "\<exists>t'. CreateGLTexture sample_env ''textures/gray.png'' ''gray'' (two_texture_scene, [])
          = Inr (False, (two_texture_scene, t'))"
    using gray by (intro CreateGLTexture_failure) simp
  ultimately show ?thesis
    using missing gray by simp
qed

section \<open>Texture lookup and binding\<close>

declare FindTextureSlot_loop.simps [simp del]
declare FindTextureID_loop.simps [simp del]
declare BindGLTextures_loop.simps [simp del]

lemma FindTextureSlot_loop_found: "FindTextureSlot_loop s tg slot index True = Inr slot"
  by (subst FindTextureSlot_loop.simps) simp

lemma FindTextureID_loop_found: "FindTextureID_loop s tg tid index True = Inr tid"
  by (subst FindTextureID_loop.simps) simp

lemma FindTextureSlot_loop_first:
  assumes "k < m_loadedTextures s" "k < length (m_textureIDs s)"
    "TEXTURE_INFO.tag (m_textureIDs s ! k) = tg"
    "\<forall>j. index \<le> j \<and> j < k \<longrightarrow> TEXTURE_INFO.tag (m_textureIDs s ! j) \<noteq> tg"
    "index \<le> k"
  shows "FindTextureSlot_loop s tg slot index False = Inr (int k)"
  using assms
proof (induction "k - index" arbitrary: index slot)
  case 0
  then have "index = k" by simp
  with 0 show ?case
    by (subst FindTextureSlot_loop.simps) (simp add: FindTextureSlot_loop_found)
next
  case (Suc d)
  then have lt: "index < k" and ne: "TEXTURE_INFO.tag (m_textureIDs s ! index) \<noteq> tg" by auto
  have "FindTextureSlot_loop s tg slot index False = FindTextureSlot_loop s tg slot (index + 1) False"
    using lt ne Suc.prems(1,2) by (subst FindTextureSlot_loop.simps) simp
  also have "\<dots> = Inr (int k)"
    using Suc.hyps(1)[of "index + 1"] Suc.hyps(2) Suc.prems lt by auto
  finally show ?case .
qed

lemma FindTextureSlot_loop_absent:
  assumes "m_loadedTextures s \<le> length (m_textureIDs s)"
    "\<forall>j. index \<le> j \<and> j < m_loadedTextures s \<longrightarrow> TEXTURE_INFO.tag (m_textureIDs s ! j) \<noteq> tg"
  shows "FindTextureSlot_loop s tg slot index False = Inr slot"
  using assms
proof (induction "m_loadedTextures s - index" arbitrary: index)
  case 0
  then show ?case by (subst FindTextureSlot_loop.simps) simp
next
  case (Suc d)
  then have lt: "index < m_loadedTextures s"
    and ne: "TEXTURE_INFO.tag (m_textureIDs s ! index) \<noteq> tg" by auto
  have "FindTextureSlot_loop s tg slot index False = FindTextureSlot_loop s tg slot (index + 1) False"
    using lt ne Suc.prems(1) by (subst FindTextureSlot_loop.simps) simp
  also have "\<dots> = Inr slot"
    using Suc.hyps(1)[of "index + 1"] Suc.hyps(2) Suc.prems by auto
  finally show ?case .
qed

lemma FindTextureID_loop_absent:
  assumes "m_loadedTextures s \<le> length (m_textureIDs s)"
    "\<forall>j. index \<le> j \<and> j < m_loadedTextures s \<longrightarrow> TEXTURE_INFO.tag (m_textureIDs s ! j) \<noteq> tg"
  shows "FindTextureID_loop s tg tid index False = Inr tid"
  using assms
proof (induction "m_loadedTextures s - index" arbitrary: index)
  case 0
  then show ?case by (subst FindTextureID_loop.simps) simp
next
  case (Suc d)
  then have lt: "index < m_loadedTextures s"
    and ne: "TEXTURE_INFO.tag (m_textureIDs s ! index) \<noteq> tg" by auto
  have "FindTextureID_loop s tg tid index False = FindTextureID_loop s tg tid (index + 1) False"
    using lt ne Suc.prems(1) by (subst FindTextureID_loop.simps) simp
  also have "\<dots> = Inr tid"
    using Suc.hyps(1)[of "index + 1"] Suc.hyps(2) Suc.prems by auto
  finally show ?case .
qed

text \<open>The calls of \<open>BindGLTextures\<close> for the slots from \<open>i\<close> on.\<close>

lemma BindGLTextures_loop_calls:
  assumes "m_loadedTextures s \<le> length (m_textureIDs s)"
  shows "BindGLTextures_loop i (s, t) =
         Inr (s, t @ concat (map (\<lambda>k. [glActiveTexture k, glBindTexture (ID (m_textureIDs s ! k))])
                              [i..<m_loadedTextures s]))"
  using assms
proof (induction "m_loadedTextures s - i" arbitrary: i t)
  case 0
  then show ?case by (subst BindGLTextures_loop.simps) simp
next
  case (Suc d)
  then have lt: "i < m_loadedTextures s" by simp
  have "BindGLTextures_loop i (s, t) =
        BindGLTextures_loop (i + 1)
          (s, t @ [glActiveTexture i, glBindTexture (ID (m_textureIDs s ! i))])"
    using lt Suc.prems by (subst BindGLTextures_loop.simps) simp
  also have "\<dots> = Inr (s, (t @ [glActiveTexture i, glBindTexture (ID (m_textureIDs s ! i))]) @
       concat (map (\<lambda>k. [glActiveTexture k, glBindTexture (ID (m_textureIDs s ! k))])
                              [i + 1..<m_loadedTextures s]))"
    using Suc.hyps(1)[of "i + 1"] Suc.hyps(2) Suc.prems by simp
  finally show ?case
    using lt by (simp add: upt_conv_Cons)
qed

lemma FindTextureID_loop_first:
  assumes "k < m_loadedTextures s" "k < length (m_textureIDs s)"
    "TEXTURE_INFO.tag (m_textureIDs s ! k) = tg"
    "\<forall>j. index \<le> j \<and> j < k \<longrightarrow> TEXTURE_INFO.tag (m_textureIDs s ! j) \<noteq> tg"
    "index \<le> k"
  shows "FindTextureID_loop s tg tid index False = Inr (sint (ID (m_textureIDs s ! k)))"
  using assms
proof (induction "k - index" arbitrary: index tid)
  case 0
  then have "index = k" by simp
  with 0 show ?case
    by (subst FindTextureID_loop.simps) (simp add: FindTextureID_loop_found)
next
  case (Suc d)
  then have lt: "index < k" and ne: "TEXTURE_INFO.tag (m_textureIDs s ! index) \<noteq> tg" by auto
  have "FindTextureID_loop s tg tid index False = FindTextureID_loop s tg tid (index + 1) False"
    using lt ne Suc.prems(1,2) by (subst FindTextureID_loop.simps) simp
  also have "\<dots> = Inr (sint (ID (m_textureIDs s ! k)))"
    using Suc.hyps(1)[of "index + 1"] Suc.hyps(2) Suc.prems lt by auto
  finally show ?case .
qed

text \<open>Among the slots below \<open>n\<close>, a tag that some slot holds has a first slot.\<close>

lemma first_slot_with_tag:
  fixes tag_at :: "nat \<Rightarrow> string"
  assumes "i < n" "tag_at i = tg"
  shows "\<exists>k < n. tag_at k = tg \<and> (\<forall>j < k. tag_at j \<noteq> tg)"
proof -
  have "\<exists>k. tag_at k = tg" using assms(2) by (rule exI)
  then have "\<exists>k. tag_at k = tg \<and> (\<forall>j < k. tag_at j \<noteq> tg)"
    by (subst (asm) exists_least_iff)
  then obtain k where at: "tag_at k = tg" and least: "\<forall>j < k. tag_at j \<noteq> tg"
    by blast
  have "\<not> i < k"
  proof
    assume "i < k"
    with least have "tag_at i \<noteq> tg" by blast
    with assms(2) show False by blast
  qed
  with assms(1) have "k < n" by arith
  with at least show ?thesis by blast
qed

text \<open>The only texture name that reads as \<open>-1\<close> when converted to \<open>int\<close>.\<close>

lemma sint_GLuint_sentinel: "sint (w :: GLuint) = - 1 \<longleftrightarrow> w = - 1"
proof
  assume "sint w = - 1"
  then have "sint w = sint (- 1 :: GLuint)" by simp
  then show "w = - 1" by (rule signed_word_eqI)
qed simp

lemma last_name_scene_loaded:
  "map_sum id (\<lambda>(r, s, t). s)
     (CreateGLTexture last_name_env ''textures/cork.jpg'' ''bottle-cork'' (SceneManager_ctor Object, []))
     = Inr last_name_scene"
  by (simp add: CreateGLTexture_def register_texture_def last_name_env_def sample_env_def
      sample_stbi_load_def Let_def last_name_scene_def SceneManager_ctor_def)

lemma last_name_scene_slot: "FindTextureSlot last_name_scene ''bottle-cork'' = Inr 0"
  unfolding FindTextureSlot_def
  using FindTextureSlot_loop_first [of 0 last_name_scene "''bottle-cork''" 0 "- 1"]
  by (simp add: last_name_scene_def SceneManager_ctor_def)

lemma last_name_scene_ID: "FindTextureID last_name_scene ''bottle-cork'' = Inr (- 1)"
  unfolding FindTextureID_def
  using FindTextureID_loop_first [of 0 last_name_scene "''bottle-cork''" 0 "- 1"]
  by (simp add: last_name_scene_def SceneManager_ctor_def)

lemma last_name_scene_absent: "FindTextureID last_name_scene ''gold'' = Inr (- 1)"
  unfolding FindTextureID_def
  by (rule FindTextureID_loop_absent) (simp_all add: last_name_scene_def SceneManager_ctor_def)

text \<open>
  The value \<open>-1\<close> of \<open>FindTextureID\<close> can be the handle of a registered texture.
  \<open>FindTextureID\<close> returns the stored \<open>GLuint\<close> converted to \<open>int\<close>: when the driver
  hands out the name \<open>0xFFFFFFFF\<close>, the load registers \<open>bottle-cork\<close> in slot 0 under
  that name, and the lookup of \<open>bottle-cork\<close> returns \<open>-1\<close>, as the lookup of the
  unregistered tag \<open>gold\<close> does.
\<close>

theorem sentinel_aliases_handle:
  "map_sum id (\<lambda>(r, s, t). s)
     (CreateGLTexture last_name_env ''textures/cork.jpg'' ''bottle-cork'' (SceneManager_ctor Object, []))
     = Inr last_name_scene \<and>
   FindTextureSlot last_name_scene ''bottle-cork'' = Inr 0 \<and>
   FindTextureID last_name_scene ''bottle-cork'' = Inr (- 1) \<and>
   FindTextureID last_name_scene ''gold'' = Inr (- 1)"
  using last_name_scene_loaded last_name_scene_slot last_name_scene_ID last_name_scene_absent
  by (intro conjI)

text \<open>
  Claim C8, as the code has it. \<open>FindTextureSlot\<close> and \<open>FindTextureID\<close> only read the
  object, so a lookup repeated on the same object gives the same answer. With the count
  inside the array:
  \<^item> the tag of slot \<open>i\<close> is looked up to \<open>i\<close>, the index at which it was registered, and to
    the name stored in that slot, converted to \<open>int\<close>, when no earlier slot holds the same
    tag, and to \<open>i\<close> for every occupied slot when the tags are distinct;
  \<^item> \<open>BindGLTextures\<close> binds, for each occupied slot \<open>i\<close> in turn, the texture of that slot
    to texture unit \<open>i\<close>;
  \<^item> a tag that no occupied slot holds is looked up to \<open>-1\<close> by both functions;
  \<^item> \<open>FindTextureSlot\<close> returns \<open>-1\<close> for no other tag, so that \<open>-1\<close> is never the
    unit of a registered texture;
  \<^item> \<open>FindTextureID\<close> returns \<open>-1\<close> for no other tag when no occupied slot stores the
    name \<open>0xFFFFFFFF\<close>.
\<close>

theorem texture_lookup_and_sentinel:
  assumes "m_loadedTextures s \<le> length (m_textureIDs s)"
  shows "(\<forall>i < m_loadedTextures s.
            (\<forall>j < i. TEXTURE_INFO.tag (m_textureIDs s ! j) \<noteq> TEXTURE_INFO.tag (m_textureIDs s ! i)) \<longrightarrow>
            FindTextureSlot s (TEXTURE_INFO.tag (m_textureIDs s ! i)) = Inr (int i) \<and>
            FindTextureID s (TEXTURE_INFO.tag (m_textureIDs s ! i)) = Inr (sint (ID (m_textureIDs s ! i)))) \<and>
         (distinct (map TEXTURE_INFO.tag (take (m_loadedTextures s) (m_textureIDs s))) \<longrightarrow>
            (\<forall>i < m_loadedTextures s.
               FindTextureSlot s (TEXTURE_INFO.tag (m_textureIDs s ! i)) = Inr (int i))) \<and>
         BindGLTextures (s, t) =
           Inr (s, t @ concat (map (\<lambda>i. [glActiveTexture i, glBindTexture (ID (m_textureIDs s ! i))])
                                [0..<m_loadedTextures s])) \<and>
         ((\<forall>i < m_loadedTextures s. TEXTURE_INFO.tag (m_textureIDs s ! i) \<noteq> tg) \<longrightarrow>
            FindTextureSlot s tg = Inr (- 1) \<and> FindTextureID s tg = Inr (- 1)) \<and>
         (FindTextureSlot s tg = Inr (- 1) \<longrightarrow>
            (\<forall>i < m_loadedTextures s. TEXTURE_INFO.tag (m_textureIDs s ! i) \<noteq> tg)) \<and>
         ((\<forall>i < m_loadedTextures s. ID (m_textureIDs s ! i) \<noteq> - 1) \<and>
          FindTextureID s tg = Inr (- 1) \<longrightarrow>
            (\<forall>i < m_loadedTextures s. TEXTURE_INFO.tag (m_textureIDs s ! i) \<noteq> tg))"
proof -
  let ?n = "m_loadedTextures s"
  let ?tag = "\<lambda>i. TEXTURE_INFO.tag (m_textureIDs s ! i)"
  have first: "FindTextureSlot s (?tag i) = Inr (int i)"
    if "i < ?n" "\<forall>j < i. ?tag j \<noteq> ?tag i" for i
    unfolding FindTextureSlot_def
    using that assms by (intro FindTextureSlot_loop_first) auto
  have first_id: "FindTextureID s (?tag i) = Inr (sint (ID (m_textureIDs s ! i)))"
    if "i < ?n" "\<forall>j < i. ?tag j \<noteq> ?tag i" for i
    unfolding FindTextureID_def
    using that assms by (intro FindTextureID_loop_first) auto
  have dist: "FindTextureSlot s (?tag i) = Inr (int i)"
    if d: "distinct (map TEXTURE_INFO.tag (take ?n (m_textureIDs s)))" and i: "i < ?n" for i
  proof (rule first [OF i], intro allI impI)
    fix j assume j: "j < i"
    let ?xs = "map TEXTURE_INFO.tag (take ?n (m_textureIDs s))"
    have len: "length ?xs = ?n"
      using assms by simp
    have nth: "?xs ! k = ?tag k" if "k < ?n" for k
      using that assms by simp
    have "?xs ! j \<noteq> ?xs ! i"
      using nth_eq_iff_index_eq [OF d, of j i] i j len by simp
    then show "?tag j \<noteq> ?tag i"
      using nth [of i] nth [of j] i j by simp
  qed
  have absent: "FindTextureSlot s tg = Inr (- 1) \<and> FindTextureID s tg = Inr (- 1)"
    if "\<forall>i < ?n. ?tag i \<noteq> tg"
    unfolding FindTextureSlot_def FindTextureID_def
    using that assms
    by (simp add: FindTextureSlot_loop_absent FindTextureID_loop_absent)
  have bind: "BindGLTextures (s, t) =
           Inr (s, t @ concat (map (\<lambda>i. [glActiveTexture i, glBindTexture (ID (m_textureIDs s ! i))])
                                [0..<?n]))"
    unfolding BindGLTextures_def using assms by (rule BindGLTextures_loop_calls)
  have slot_sentinel: "\<forall>i < ?n. ?tag i \<noteq> tg" if r: "FindTextureSlot s tg = Inr (- 1)"
  proof (intro allI impI notI)
    fix i assume i: "i < ?n" and tg: "?tag i = tg"
    from first_slot_with_tag [of i ?n ?tag tg, OF i tg]
    obtain k where k: "k < ?n" "?tag k = tg" "\<forall>j < k. ?tag j \<noteq> tg" by blast
    from first [of k] k have "FindTextureSlot s tg = Inr (int k)" by auto
    with r show False by simp
  qed
  have id_sentinel: "\<forall>i < ?n. ?tag i \<noteq> tg"
    if names: "\<forall>i < ?n. ID (m_textureIDs s ! i) \<noteq> - 1" and r: "FindTextureID s tg = Inr (- 1)"
  proof (intro allI impI notI)
    fix i assume i: "i < ?n" and tg: "?tag i = tg"
    from first_slot_with_tag [of i ?n ?tag tg, OF i tg]
    obtain k where k: "k < ?n" "?tag k = tg" "\<forall>j < k. ?tag j \<noteq> tg" by blast
    from first_id [of k] k have "FindTextureID s tg = Inr (sint (ID (m_textureIDs s ! k)))" by auto
    with r have "sint (ID (m_textureIDs s ! k)) = - 1" by simp
    then have "ID (m_textureIDs s ! k) = - 1" by (simp add: sint_GLuint_sentinel)
    with names k(1) show False by simp
  qed
  have c1: "\<forall>i < ?n. (\<forall>j < i. ?tag j \<noteq> ?tag i) \<longrightarrow>
            FindTextureSlot s (?tag i) = Inr (int i) \<and>
            FindTextureID s (?tag i) = Inr (sint (ID (m_textureIDs s ! i)))"
    using first first_id by simp
  have c2: "distinct (map TEXTURE_INFO.tag (take ?n (m_textureIDs s))) \<longrightarrow>
            (\<forall>i < ?n. FindTextureSlot s (?tag i) = Inr (int i))"
    using dist by simp
  have c4: "(\<forall>i < ?n. ?tag i \<noteq> tg) \<longrightarrow>
            FindTextureSlot s tg = Inr (- 1) \<and> FindTextureID s tg = Inr (- 1)"
    using absent by simp
  have c5: "FindTextureSlot s tg = Inr (- 1) \<longrightarrow> (\<forall>i < ?n. ?tag i \<noteq> tg)"
    using slot_sentinel by (rule impI)
  have c6: "(\<forall>i < ?n. ID (m_textureIDs s ! i) \<noteq> - 1) \<and> FindTextureID s tg = Inr (- 1) \<longrightarrow>
            (\<forall>i < ?n. ?tag i \<noteq> tg)"
    using id_sentinel by (intro impI) (erule conjE)
  show ?thesis
    by (rule conjI [OF c1 conjI [OF c2 conjI [OF bind conjI [OF c4 conjI [OF c5 c6]]]]])
qed

theorem texture_lookup_and_sentinel_witness:
  "m_loadedTextures two_texture_scene \<le> length (m_textureIDs two_texture_scene) \<and>
   FindTextureSlot two_texture_scene ''bottle-cork'' = Inr 0 \<and>
   FindTextureSlot two_texture_scene ''black-twine'' = Inr 1 \<and>
   FindTextureID two_texture_scene ''black-twine'' = Inr 2 \<and>
   BindGLTextures (two_texture_scene, []) =
     Inr (two_texture_scene, [glActiveTexture 0, glBindTexture 1, glActiveTexture 1, glBindTexture 2]) \<and>
   FindTextureSlot two_texture_scene ''gold'' = Inr (- 1) \<and>
   FindTextureID two_texture_scene ''gold'' = Inr (- 1)"
proof -
  have pre: "m_loadedTextures two_texture_scene \<le> length (m_textureIDs two_texture_scene)"
    by (simp add: two_texture_scene_def SceneManager_ctor_def)
  note th = texture_lookup_and_sentinel [OF pre, of "[]" "''gold''"]
  have n: "m_loadedTextures two_texture_scene = 2"
    by (simp add: two_texture_scene_def)
  have t0: "TEXTURE_INFO.tag (m_textureIDs two_texture_scene ! 0) = ''bottle-cork''"
    and t1: "TEXTURE_INFO.tag (m_textureIDs two_texture_scene ! 1) = ''black-twine''"
    and i0: "ID (m_textureIDs two_texture_scene ! 0) = 1"
    and i1: "ID (m_textureIDs two_texture_scene ! 1) = 2"
    by (simp_all add: two_texture_scene_def)
  have lt2: "i < 2 \<longleftrightarrow> i = 0 \<or> i = 1" for i :: nat by auto
  from th have a: "\<forall>i < m_loadedTextures two_texture_scene.
            (\<forall>j < i. TEXTURE_INFO.tag (m_textureIDs two_texture_scene ! j) \<noteq>
                      TEXTURE_INFO.tag (m_textureIDs two_texture_scene ! i)) \<longrightarrow>
            FindTextureSlot two_texture_scene (TEXTURE_INFO.tag (m_textureIDs two_texture_scene ! i))
              = Inr (int i) \<and>
            FindTextureID two_texture_scene (TEXTURE_INFO.tag (m_textureIDs two_texture_scene ! i))
              = Inr (sint (ID (m_textureIDs two_texture_scene ! i)))"
    by (rule conjunct1)
  have s0: "FindTextureSlot two_texture_scene ''bottle-cork'' = Inr 0"
    using a [rule_format, of 0] n t0 by simp
  have s1: "FindTextureSlot two_texture_scene ''black-twine'' = Inr 1"
    using a [rule_format, of 1] n t0 t1 by simp
  have d1: "FindTextureID two_texture_scene ''black-twine'' = Inr 2"
    using a [rule_format, of 1] n t0 t1 i1 by simp
  from th have b: "BindGLTextures (two_texture_scene, []) =
           Inr (two_texture_scene, [] @ concat (map (\<lambda>i. [glActiveTexture i,
                  glBindTexture (ID (m_textureIDs two_texture_scene ! i))])
                                [0..<m_loadedTextures two_texture_scene]))"
    by (rule conjunct1 [OF conjunct2 [OF conjunct2]])
  have b': "BindGLTextures (two_texture_scene, []) =
     Inr (two_texture_scene, [glActiveTexture 0, glBindTexture 1, glActiveTexture 1, glBindTexture 2])"
    using b n i0 i1 by (simp add: upt_conv_Cons)
  from th have c: "(\<forall>i < m_loadedTextures two_texture_scene.
        TEXTURE_INFO.tag (m_textureIDs two_texture_scene ! i) \<noteq> ''gold'') \<longrightarrow>
            FindTextureSlot two_texture_scene ''gold'' = Inr (- 1) \<and>
            FindTextureID two_texture_scene ''gold'' = Inr (- 1)"
    by (rule conjunct1 [OF conjunct2 [OF conjunct2 [OF conjunct2]]])
  have c': "FindTextureSlot two_texture_scene ''gold'' = Inr (- 1) \<and>
            FindTextureID two_texture_scene ''gold'' = Inr (- 1)"
    using c n t0 t1 by (simp add: lt2)
  show ?thesis using pre s0 s1 d1 b' c' by simp
qed

section \<open>The model matrix\<close>

text \<open>
  Claim C6. With a shader manager present, \<open>SetTransformations\<close> sends as the uniform
  \<open>model\<close> the product \<open>translation * rotationZ * rotationY * rotationX * scale\<close>, where the
  rotations are about the z, y and x axes by the given angles converted from degrees to
  radians.
\<close>

theorem SetTransformations_model_matrix:
  assumes "m_pShaderManager s \<noteq> NULL"
  shows "SetTransformations e scaleXYZ XrotationDegrees YrotationDegrees ZrotationDegrees positionXYZ (s, t) =
         Inr (s, t @ [setMat4Value ''model''
           (glm_mul e
             (glm_mul e
               (glm_mul e
                 (glm_mul e (glm_translate e positionXYZ)
                            (glm_rotate e (glm_radians e ZrotationDegrees) (Vec3 0 0 1)))
                 (glm_rotate e (glm_radians e YrotationDegrees) (Vec3 0 1 0)))
               (glm_rotate e (glm_radians e XrotationDegrees) (Vec3 1 0 0)))
             (glm_scale e scaleXYZ))])"
  using assms by (simp add: SetTransformations_def Let_def g_ModelName_def)

theorem SetTransformations_model_matrix_witness:
  "m_pShaderManager (SceneManager_ctor Object) \<noteq> NULL \<and>
   SetTransformations sample_env (Vec3 2 1 1) 0 0 0 (Vec3 0 5 0) (SceneManager_ctor Object, []) =
     Inr (SceneManager_ctor Object,
          [setMat4Value ''model'' (Mat4 (Vec4 2 0 0 0) (Vec4 0 1 0 0) (Vec4 0 0 1 0) (Vec4 0 5 0 1))])"
  using SetTransformations_model_matrix [of "SceneManager_ctor Object" sample_env
      "Vec3 2 1 1" 0 0 0 "Vec3 0 5 0" "[]"]
  by (simp add: SceneManager_ctor_def sample_env_def exact_radians_def)

text \<open>In exact arithmetic the product acts on a point as the scale first, then the rotations
  about x, y and z, then the translation.\<close>

lemma mat4_apply_mul: "mat4_apply (mat4_mul A B) v = mat4_apply A (mat4_apply B v)"
proof (cases A; cases B; cases v)
  fix a0 a1 a2 a3 b0 b1 b2 b3 x y z w
  assume A: "A = Mat4 a0 a1 a2 a3" and B: "B = Mat4 b0 b1 b2 b3" and v: "v = Vec4 x y z w"
  show ?thesis
    unfolding A B v
    by (cases a0; cases a1; cases a2; cases a3; cases b0; cases b1; cases b2; cases b3)
       (simp add: algebra_simps)
qed

lemma exact_model_matrix_acts_in_order:
  "mat4_apply
     (mat4_mul (mat4_mul (mat4_mul (mat4_mul T Rz) Ry) Rx) S) p =
   mat4_apply T (mat4_apply Rz (mat4_apply Ry (mat4_apply Rx (mat4_apply S p))))"
  by (simp add: mat4_apply_mul)

section \<open>Teardown\<close>

text \<open>
  Claim C2. The destructor is meant to release every registered texture. On the object
  with two registered textures (names 1 and 2) it makes two calls of \<open>glGenTextures\<close> and
  no call of \<open>glDeleteTextures\<close>: each slot's name is overwritten by a newly generated one
  and neither registered texture is deleted.
\<close>

theorem destructor_generates_instead_of_deleting:
  "SceneManager_dtor e (two_texture_scene, t) =
     Inr (two_texture_scene
            \<lparr> m_pShaderManager := NULL, m_basicMeshes := NULL,
              m_textureIDs := (m_textureIDs two_texture_scene)
                [0 := \<lparr> TEXTURE_INFO.tag = ''bottle-cork'', ID = gen_texture_name e t \<rparr>,
                 1 := \<lparr> TEXTURE_INFO.tag = ''black-twine'',
                        ID = gen_texture_name e (t @ [glGenTextures (gen_texture_name e t)]) \<rparr>] \<rparr>,
          t @ [glGenTextures (gen_texture_name e t),
               glGenTextures (gen_texture_name e (t @ [glGenTextures (gen_texture_name e t)]))])"
  by (simp add: SceneManager_dtor_def DestroyGLTextures_def DestroyGLTextures_loop.simps
      two_texture_scene_def SceneManager_ctor_def Let_def)

section \<open>The invariant of the texture registry\<close>

lemma CreateGLTexture_unsupported:
  assumes "\<not> supported e filename"
  shows "\<exists>t'. CreateGLTexture e filename tg (s, t) = Inr (False, (s, t'))"
  using assms by (auto simp: CreateGLTexture_def supported_def Let_def split: option.splits)

lemma CreateGLTexture_supported:
  assumes "supported e filename" "m_loadedTextures s < length (m_textureIDs s)"
  shows "\<exists>n t'. CreateGLTexture e filename tg (s, t) =
           Inr (True, (s\<lparr> m_textureIDs := (m_textureIDs s)
                             [m_loadedTextures s := \<lparr> TEXTURE_INFO.tag = tg, ID = n \<rparr>],
                          m_loadedTextures := m_loadedTextures s + 1 \<rparr>, t'))"
  using assms
  by (auto simp: CreateGLTexture_def register_texture_def supported_def Let_def
      split: option.splits)

lemma CreateGLTexture_full:
  assumes "supported e filename" "\<not> m_loadedTextures s < length (m_textureIDs s)"
  shows "CreateGLTexture e filename tg (s, t) = Inl OutOfBounds"
  using assms
  by (auto simp: CreateGLTexture_def register_texture_def supported_def Let_def
      split: option.splits)

lemma occupied_tags_register:
  assumes "m_loadedTextures s < length (m_textureIDs s)"
  shows "occupied_tags (s\<lparr> m_textureIDs := (m_textureIDs s)
                             [m_loadedTextures s := \<lparr> TEXTURE_INFO.tag = tg, ID = n \<rparr>],
                          m_loadedTextures := m_loadedTextures s + 1 \<rparr>)
         = occupied_tags s @ [tg]"
  using assms by (simp add: occupied_tags_def take_Suc_conv_app_nth)

declare DestroyGLTextures_loop.simps [simp del]

lemma DestroyGLTextures_loop_keeps_tags:
  assumes "m_loadedTextures s \<le> length (m_textureIDs s)"
  shows "\<exists>s' t'. DestroyGLTextures_loop e i (s, t) = Inr (s', t') \<and>
           map TEXTURE_INFO.tag (m_textureIDs s') = map TEXTURE_INFO.tag (m_textureIDs s) \<and>
           m_loadedTextures s' = m_loadedTextures s"
  using assms
proof (induction "m_loadedTextures s - i" arbitrary: i s t)
  case 0
  then show ?case by (subst DestroyGLTextures_loop.simps) simp
next
  case (Suc d)
  then have lt: "i < m_loadedTextures s" by simp
  let ?n = "gen_texture_name e t"
  let ?s = "s\<lparr> m_textureIDs := (m_textureIDs s)[i := (m_textureIDs s ! i)\<lparr> ID := ?n \<rparr>] \<rparr>"
  have step: "DestroyGLTextures_loop e i (s, t) =
              DestroyGLTextures_loop e (i + 1) (?s, t @ [glGenTextures ?n])"
    using lt Suc.prems by (subst DestroyGLTextures_loop.simps) (simp add: Let_def)
  have tags: "map TEXTURE_INFO.tag (m_textureIDs ?s) = map TEXTURE_INFO.tag (m_textureIDs s)"
    using lt Suc.prems by (simp add: map_update list_update_same_conv)
  have "\<exists>s' t'. DestroyGLTextures_loop e (i + 1) (?s, t @ [glGenTextures ?n]) = Inr (s', t') \<and>
           map TEXTURE_INFO.tag (m_textureIDs s') = map TEXTURE_INFO.tag (m_textureIDs ?s) \<and>
           m_loadedTextures s' = m_loadedTextures ?s"
    using Suc.hyps(2) Suc.prems by (intro Suc.hyps(1)) simp_all
  then show ?case
    using step tags by auto
qed

lemma occupied_tags_cong:
  assumes "map TEXTURE_INFO.tag (m_textureIDs s') = map TEXTURE_INFO.tag (m_textureIDs s)"
    "m_loadedTextures s' = m_loadedTextures s"
  shows "occupied_tags s' = occupied_tags s"
  using assms by (simp add: occupied_tags_def take_map [symmetric])

lemma full_scene_inv: "texture_registry_inv full_scene"
  by (simp add: texture_registry_inv_def occupied_tags_def full_scene_def distinct_map inj_on_def
      comp_def)

lemma two_texture_scene_inv: "texture_registry_inv two_texture_scene"
  by (simp add: texture_registry_inv_def occupied_tags_def two_texture_scene_def
      SceneManager_ctor_def take_Suc_conv_app_nth eval_nat_numeral)

text \<open>
  \<open>CreateGLTexture\<close> checks neither the tag nor the capacity. On the object with
  \<open>bottle-cork\<close> and \<open>black-twine\<close> registered, which satisfies the invariant, loading a
  texture under the tag \<open>bottle-cork\<close> again succeeds and leaves that tag in two occupied
  slots. On the object with 16 distinct tags registered, which satisfies the invariant too,
  a load that decodes writes \<open>m_textureIDs[16]\<close>, outside the array.
\<close>

theorem registry_invariant_counterexample:
  "texture_registry_inv two_texture_scene \<and>
   (case CreateGLTexture sample_env ''textures/cork.jpg'' ''bottle-cork'' (two_texture_scene, []) of
      Inr (True, (s', t')) \<Rightarrow> \<not> texture_registry_inv s'
    | _ \<Rightarrow> False) \<and>
   texture_registry_inv full_scene \<and>
   CreateGLTexture sample_env ''textures/cork.jpg'' ''stopper'' (full_scene, []) = Inl OutOfBounds"
proof -
  have dup: "(case CreateGLTexture sample_env ''textures/cork.jpg'' ''bottle-cork'' (two_texture_scene, []) of
      Inr (True, (s', t')) \<Rightarrow> \<not> texture_registry_inv s'
    | _ \<Rightarrow> False)"
    by (simp add: texture_registry_inv_def occupied_tags_def two_texture_scene_def
      SceneManager_ctor_def CreateGLTexture_def register_texture_def sample_env_def
      sample_stbi_load_def Let_def take_Suc_conv_app_nth eval_nat_numeral)
  have "supported sample_env ''textures/cork.jpg''"
    by (simp add: supported_def sample_env_def sample_stbi_load_def)
  moreover have "\<not> m_loadedTextures full_scene < length (m_textureIDs full_scene)"
    by (simp add: full_scene_def)
  ultimately have full: "CreateGLTexture sample_env ''textures/cork.jpg'' ''stopper'' (full_scene, [])
      = Inl OutOfBounds"
    by (rule CreateGLTexture_full)
  show ?thesis
    using two_texture_scene_inv dup full_scene_inv full by simp
qed

text \<open>
  Claim C4, as the code has it. From an object that satisfies the invariant:
  \<^item> \<open>CreateGLTexture\<close> keeps the invariant when fewer than 16 textures are loaded and the
    new tag is in no occupied slot; a successful call then adds the tag after the occupied
    ones, a failed one changes nothing;
  \<^item> a \<open>CreateGLTexture\<close> whose file does not decode to 3 or 4 channels changes nothing;
  \<^item> \<open>BindGLTextures\<close> changes nothing;
  \<^item> \<open>DestroyGLTextures\<close> keeps the invariant and the occupied tags.
\<close>

theorem registry_invariant_preserved:
  assumes "texture_registry_inv s"
  shows "(m_loadedTextures s < 16 \<and> tg \<notin> set (occupied_tags s) \<longrightarrow>
            (\<exists>r s' t'. CreateGLTexture e filename tg (s, t) = Inr (r, (s', t')) \<and>
               texture_registry_inv s' \<and>
               (if r then occupied_tags s' = occupied_tags s @ [tg] else s' = s))) \<and>
         (\<not> supported e filename \<longrightarrow>
            (\<exists>t'. CreateGLTexture e filename tg (s, t) = Inr (False, (s, t')))) \<and>
         (\<exists>t'. BindGLTextures (s, t) = Inr (s, t')) \<and>
         (\<exists>s' t'. DestroyGLTextures e (s, t) = Inr (s', t') \<and> texture_registry_inv s' \<and>
            occupied_tags s' = occupied_tags s)"
proof -
  from assms have len: "length (m_textureIDs s) = 16" and n: "m_loadedTextures s \<le> 16"
    and d: "distinct (occupied_tags s)"
    by (simp_all add: texture_registry_inv_def)
  have create: "\<exists>r s' t'. CreateGLTexture e filename tg (s, t) = Inr (r, (s', t')) \<and>
               texture_registry_inv s' \<and>
               (if r then occupied_tags s' = occupied_tags s @ [tg] else s' = s)"
    if lt: "m_loadedTextures s < 16" and fresh: "tg \<notin> set (occupied_tags s)"
  proof (cases "supported e filename")
    case True
    from lt len have room: "m_loadedTextures s < length (m_textureIDs s)" by simp
    from CreateGLTexture_supported [OF True room, of tg t]
    obtain k t' where eq: "CreateGLTexture e filename tg (s, t) =
           Inr (True, (s\<lparr> m_textureIDs := (m_textureIDs s)
                             [m_loadedTextures s := \<lparr> TEXTURE_INFO.tag = tg, ID = k \<rparr>],
                          m_loadedTextures := m_loadedTextures s + 1 \<rparr>, t'))"
      by blast
    let ?s' = "s\<lparr> m_textureIDs := (m_textureIDs s)
                             [m_loadedTextures s := \<lparr> TEXTURE_INFO.tag = tg, ID = k \<rparr>],
                          m_loadedTextures := m_loadedTextures s + 1 \<rparr>"
    have occ: "occupied_tags ?s' = occupied_tags s @ [tg]"
      using room by (rule occupied_tags_register)
    have "texture_registry_inv ?s'"
      using len lt d fresh occ by (simp add: texture_registry_inv_def)
    with eq occ show ?thesis by auto
  next
    case False
    from CreateGLTexture_unsupported [OF False, of tg s t] assms show ?thesis by auto
  qed
  have bind: "\<exists>t'. BindGLTextures (s, t) = Inr (s, t')"
    using BindGLTextures_loop_calls [of s 0 t] len n by (simp add: BindGLTextures_def)
  have destroy: "\<exists>s' t'. DestroyGLTextures e (s, t) = Inr (s', t') \<and> texture_registry_inv s' \<and>
            occupied_tags s' = occupied_tags s"
  proof -
    from DestroyGLTextures_loop_keeps_tags [of s e 0 t] len n
    obtain s' t' where eq: "DestroyGLTextures_loop e 0 (s, t) = Inr (s', t')"
      and tags: "map TEXTURE_INFO.tag (m_textureIDs s') = map TEXTURE_INFO.tag (m_textureIDs s)"
      and cnt: "m_loadedTextures s' = m_loadedTextures s"
      by auto
    have occ: "occupied_tags s' = occupied_tags s"
      using tags cnt by (rule occupied_tags_cong)
    have "length (m_textureIDs s') = length (m_textureIDs s)"
      using tags by (metis length_map)
    then have "texture_registry_inv s'"
      using len n d occ cnt by (simp add: texture_registry_inv_def)
    with eq occ show ?thesis by (auto simp: DestroyGLTextures_def)
  qed
  show ?thesis
    using create CreateGLTexture_unsupported [of e filename tg s t] bind destroy by blast
qed

theorem registry_invariant_preserved_witness:
  "texture_registry_inv two_texture_scene \<and>
   m_loadedTextures two_texture_scene < 16 \<and>
   ''table'' \<notin> set (occupied_tags two_texture_scene) \<and>
   (\<exists>r s' t'. CreateGLTexture sample_env ''textures/wood-seamless.jpg'' ''table''
                 (two_texture_scene, []) = Inr (r, (s', t')) \<and>
               texture_registry_inv s' \<and>
               (if r then occupied_tags s' = occupied_tags two_texture_scene @ [''table'']
                else s' = two_texture_scene))"
proof -
  have n: "m_loadedTextures two_texture_scene < 16"
    by (simp add: two_texture_scene_def)
  have fresh: "''table'' \<notin> set (occupied_tags two_texture_scene)"
    by (simp add: occupied_tags_def two_texture_scene_def SceneManager_ctor_def
        take_Suc_conv_app_nth eval_nat_numeral)
  from registry_invariant_preserved [OF two_texture_scene_inv,
      of "''table''" sample_env "''textures/wood-seamless.jpg''" "[]"] n fresh
  have "\<exists>r s' t'. CreateGLTexture sample_env ''textures/wood-seamless.jpg'' ''table''
                 (two_texture_scene, []) = Inr (r, (s', t')) \<and>
               texture_registry_inv s' \<and>
               (if r then occupied_tags s' = occupied_tags two_texture_scene @ [''table'']
                else s' = two_texture_scene)"
    by blast
  with two_texture_scene_inv n fresh show ?thesis by blast
qed


section \<open>Rendering only makes calls\<close>

text \<open>A statement reads only, on the object \<open>s\<close>, when from every trace it returns \<open>s\<close> itself
  and appends the calls \<open>calls_of f s\<close>, which depend on the object alone.\<close>

lemma seq_append:
  "seq (fs @ gs) m = (case seq fs m of Inl err \<Rightarrow> Inl err | Inr m' \<Rightarrow> seq gs m')"
  by (induction fs arbitrary: m) (auto split: sum.splits)

lemma seq_read_only:
  assumes "\<forall>f \<in> set fs. \<forall>t. f (s, t) = Inr (s, t @ calls_of f s)"
  shows "seq fs (s, t) = Inr (s, t @ concat (map (\<lambda>f. calls_of f s) fs))"
  using assms by (induction fs arbitrary: t) simp_all

lemma seq_calls_of:
  assumes "\<forall>f \<in> set fs. \<forall>t. f (s, t) = Inr (s, t @ calls_of f s)"
  shows "seq fs (s, t) = Inr (s, t @ calls_of (seq fs) s)"
proof -
  have "calls_of (seq fs) s = concat (map (\<lambda>f. calls_of f s) fs)"
    using seq_read_only [OF assms, of "[]"] by (simp add: calls_of_def)
  then show ?thesis
    using seq_read_only [OF assms, of t] by simp
qed

lemma FindTextureSlot_loop_total:
  assumes "m_loadedTextures s \<le> length (m_textureIDs s)"
  shows "\<exists>r. FindTextureSlot_loop s tg slot index bFound = Inr r"
  using assms
proof (induction s tg slot index bFound rule: FindTextureSlot_loop.induct)
  case (1 s tg textureSlot index bFound)
  show ?case
  proof (cases "index < m_loadedTextures s \<and> bFound = False")
    case False
    then show ?thesis by (subst FindTextureSlot_loop.simps) auto
  next
    case True
    with "1.prems" have inside: "index < length (m_textureIDs s)" by simp
    show ?thesis
    proof (cases "TEXTURE_INFO.tag (m_textureIDs s ! index) = tg")
      case same: True
      from "1.IH"(1) [OF True inside same "1.prems"] True inside same show ?thesis
        by (subst FindTextureSlot_loop.simps) simp
    next
      case other: False
      from "1.IH"(2) [OF True inside other "1.prems"] True inside other show ?thesis
        by (subst FindTextureSlot_loop.simps) simp
    qed
  qed
qed

lemma SetTransformations_read_only:
  assumes "ready_to_render s"
  shows "SetTransformations e sc xd yd zd pos (s, t) =
         Inr (s, t @ calls_of (SetTransformations e sc xd yd zd pos) s)"
  using assms by (simp add: SetTransformations_def calls_of_def Let_def ready_to_render_def)

lemma SetShaderColor_read_only:
  assumes "ready_to_render s"
  shows "SetShaderColor r g b a (s, t) = Inr (s, t @ calls_of (SetShaderColor r g b a) s)"
  using assms by (simp add: SetShaderColor_def calls_of_def Let_def ready_to_render_def)

lemma SetShaderTexture_read_only:
  assumes "ready_to_render s"
  shows "SetShaderTexture tg (s, t) = Inr (s, t @ calls_of (SetShaderTexture tg) s)"
proof -
  from assms have "m_loadedTextures s \<le> length (m_textureIDs s)"
    by (simp add: ready_to_render_def)
  then obtain r where "FindTextureSlot s tg = Inr r"
    unfolding FindTextureSlot_def using FindTextureSlot_loop_total by blast
  then show ?thesis
    using assms by (simp add: SetShaderTexture_def calls_of_def ready_to_render_def)
qed

lemma SetTextureUVScale_read_only:
  assumes "ready_to_render s"
  shows "SetTextureUVScale u v (s, t) = Inr (s, t @ calls_of (SetTextureUVScale u v) s)"
  using assms by (simp add: SetTextureUVScale_def calls_of_def ready_to_render_def)

lemma SetShaderMaterial_read_only:
  assumes "ready_to_render s"
  shows "SetShaderMaterial e tg (s, t) = Inr (s, t @ calls_of (SetShaderMaterial e tg) s)"
  using assms
  by (simp add: SetShaderMaterial_def calls_of_def ready_to_render_def FindMaterial_def)

lemma m_basicMeshes_Draw_read_only:
  assumes "ready_to_render s"
  shows "m_basicMeshes_Draw k (s, t) = Inr (s, t @ calls_of (m_basicMeshes_Draw k) s)"
  using assms by (simp add: m_basicMeshes_Draw_def calls_of_def ready_to_render_def)

lemmas read_only =
  SetTransformations_read_only SetShaderColor_read_only SetShaderTexture_read_only
  SetTextureUVScale_read_only SetShaderMaterial_read_only m_basicMeshes_Draw_read_only

lemma RenderBackground_read_only:
  assumes "ready_to_render s"
  shows "RenderBackground e (s, t) = Inr (s, t @ calls_of (RenderBackground e) s)"
  unfolding RenderBackground_def
  by (rule seq_calls_of) (simp add: read_only [OF assms])

lemma RenderTable_read_only:
  assumes "ready_to_render s"
  shows "RenderTable e (s, t) = Inr (s, t @ calls_of (RenderTable e) s)"
  unfolding RenderTable_def
  by (rule seq_calls_of) (simp add: read_only [OF assms])

lemma RenderDraughtLivingDeath_read_only:
  assumes "ready_to_render s"
  shows "RenderDraughtLivingDeath e (s, t) = Inr (s, t @ calls_of (RenderDraughtLivingDeath e) s)"
  unfolding RenderDraughtLivingDeath_def
  by (rule seq_calls_of) (simp add: read_only [OF assms])

lemma RenderAmortentia_read_only:
  assumes "ready_to_render s"
  shows "RenderAmortentia e (s, t) = Inr (s, t @ calls_of (RenderAmortentia e) s)"
  unfolding RenderAmortentia_def
  by (rule seq_calls_of) (simp add: read_only [OF assms])

lemma RenderThunderbrew_read_only:
  assumes "ready_to_render s"
  shows "RenderThunderbrew e (s, t) = Inr (s, t @ calls_of (RenderThunderbrew e) s)"
  unfolding RenderThunderbrew_def
  by (rule seq_calls_of) (simp add: read_only [OF assms])

lemma RenderFelix_read_only:
  assumes "ready_to_render s"
  shows "RenderFelix e (s, t) = Inr (s, t @ calls_of (RenderFelix e) s)"
  unfolding RenderFelix_def
  by (rule seq_calls_of) (simp add: read_only [OF assms])

lemma RenderFlooPowder_read_only:
  assumes "ready_to_render s"
  shows "RenderFlooPowder e (s, t) = Inr (s, t @ calls_of (RenderFlooPowder e) s)"
  unfolding RenderFlooPowder_def
  by (rule seq_calls_of) (simp add: read_only [OF assms])

lemma RenderScene_read_only:
  assumes "ready_to_render s"
  shows "RenderScene e (s, t) = Inr (s, t @ calls_of (RenderScene e) s)"
  unfolding RenderScene_def
  by (rule seq_calls_of)
     (simp add: RenderBackground_read_only [OF assms] RenderTable_read_only [OF assms]
        RenderDraughtLivingDeath_read_only [OF assms] RenderAmortentia_read_only [OF assms]
        RenderThunderbrew_read_only [OF assms] RenderFelix_read_only [OF assms]
        RenderFlooPowder_read_only [OF assms])

section \<open>What \<open>PrepareScene\<close> leaves\<close>

lemma LoadSceneTextures_scene_textures:
  "LoadSceneTextures e =
     seq (map (\<lambda>(f, tg). bReturn_assign (CreateGLTexture e f tg)) scene_textures @ [BindGLTextures])"
  by (simp add: LoadSceneTextures_def scene_textures_def)

lemma CreateGLTexture_frame:
  assumes "CreateGLTexture e f tg (s, t) = Inr (r, (s', t'))"
  shows "m_objectMaterials s' = m_objectMaterials s \<and> m_pShaderManager s' = m_pShaderManager s \<and>
         m_basicMeshes s' = m_basicMeshes s"
  using assms
  by (auto simp: CreateGLTexture_def register_texture_def Let_def split: option.splits if_splits)

lemma bReturn_assign_Inr:
  "bReturn_assign f m = Inr m' \<longleftrightarrow> (\<exists>r. f m = Inr (r, m'))"
  by (auto simp: bReturn_assign_def split: sum.splits)

lemma load_all_frame:
  assumes "seq (map (\<lambda>(f, tg). bReturn_assign (CreateGLTexture e f tg)) fts) (s, t) = Inr (s', t')"
  shows "m_objectMaterials s' = m_objectMaterials s \<and> m_pShaderManager s' = m_pShaderManager s \<and>
         m_basicMeshes s' = m_basicMeshes s"
  using assms
proof (induction fts arbitrary: s t)
  case Nil
  then show ?case by simp
next
  case (Cons ft fts)
  obtain f tg where ft: "ft = (f, tg)" by (cases ft)
  from Cons.prems obtain r s1 t1 where
    c: "CreateGLTexture e f tg (s, t) = Inr (r, (s1, t1))" and
    rest: "seq (map (\<lambda>(f, tg). bReturn_assign (CreateGLTexture e f tg)) fts) (s1, t1) = Inr (s', t')"
    by (auto simp: ft bReturn_assign_Inr split: sum.splits)
  from CreateGLTexture_frame [OF c] Cons.IH [OF rest] show ?case by simp
qed

lemma load_all:
  assumes "m_loadedTextures s + length fts \<le> length (m_textureIDs s)"
  shows "\<exists>s' t'. seq (map (\<lambda>(f, tg). bReturn_assign (CreateGLTexture e f tg)) fts) (s, t) = Inr (s', t') \<and>
           occupied_tags s' = occupied_tags s @ map snd (filter (\<lambda>(f, tg). supported e f) fts) \<and>
           length (m_textureIDs s') = length (m_textureIDs s) \<and>
           m_loadedTextures s' = m_loadedTextures s + length (filter (\<lambda>(f, tg). supported e f) fts)"
  using assms
proof (induction fts arbitrary: s t)
  case Nil
  then show ?case by simp
next
  case (Cons ft fts)
  obtain f tg where ft: "ft = (f, tg)" by (cases ft)
  show ?case
  proof (cases "supported e f")
    case True
    from Cons.prems have room: "m_loadedTextures s < length (m_textureIDs s)" by simp
    from CreateGLTexture_supported [OF True room, of tg t]
    obtain k t1 where c: "CreateGLTexture e f tg (s, t) =
           Inr (True, (s\<lparr> m_textureIDs := (m_textureIDs s)
                             [m_loadedTextures s := \<lparr> TEXTURE_INFO.tag = tg, ID = k \<rparr>],
                          m_loadedTextures := m_loadedTextures s + 1 \<rparr>, t1))"
      by blast
    let ?s1 = "s\<lparr> m_textureIDs := (m_textureIDs s)
                             [m_loadedTextures s := \<lparr> TEXTURE_INFO.tag = tg, ID = k \<rparr>],
                          m_loadedTextures := m_loadedTextures s + 1 \<rparr>"
    have "m_loadedTextures ?s1 + length fts \<le> length (m_textureIDs ?s1)"
      using Cons.prems by simp
    from Cons.IH [OF this, of t1] obtain s' t' where
      rest: "seq (map (\<lambda>(f, tg). bReturn_assign (CreateGLTexture e f tg)) fts) (?s1, t1) = Inr (s', t')"
      and occ: "occupied_tags s' = occupied_tags ?s1 @ map snd (filter (\<lambda>(f, tg). supported e f) fts)"
      and len: "length (m_textureIDs s') = length (m_textureIDs ?s1)"
      and cnt: "m_loadedTextures s' = m_loadedTextures ?s1 + length (filter (\<lambda>(f, tg). supported e f) fts)"
      by blast
    have "seq (map (\<lambda>(f, tg). bReturn_assign (CreateGLTexture e f tg)) (ft # fts)) (s, t) = Inr (s', t')"
      using c rest by (simp add: ft bReturn_assign_def)
    moreover have "occupied_tags s' =
        occupied_tags s @ map snd (filter (\<lambda>(f, tg). supported e f) (ft # fts))"
      using occ occupied_tags_register [OF room, of tg k] True by (simp add: ft)
    ultimately show ?thesis
      using len cnt True by (simp add: ft)
  next
    case False
    from CreateGLTexture_unsupported [OF False, of tg s t]
    obtain t1 where c: "CreateGLTexture e f tg (s, t) = Inr (False, (s, t1))" by blast
    have "m_loadedTextures s + length fts \<le> length (m_textureIDs s)"
      using Cons.prems by simp
    from Cons.IH [OF this, of t1] obtain s' t' where
      rest: "seq (map (\<lambda>(f, tg). bReturn_assign (CreateGLTexture e f tg)) fts) (s, t1) = Inr (s', t')"
      and occ: "occupied_tags s' = occupied_tags s @ map snd (filter (\<lambda>(f, tg). supported e f) fts)"
      and len: "length (m_textureIDs s') = length (m_textureIDs s)"
      and cnt: "m_loadedTextures s' = m_loadedTextures s + length (filter (\<lambda>(f, tg). supported e f) fts)"
      by blast
    have "seq (map (\<lambda>(f, tg). bReturn_assign (CreateGLTexture e f tg)) (ft # fts)) (s, t) = Inr (s', t')"
      using c rest by (simp add: ft bReturn_assign_def)
    then show ?thesis
      using occ len cnt False by (simp add: ft)
  qed
qed

lemma BindGLTextures_loop_returns:
  assumes "BindGLTextures_loop i (s, t) = Inr (s', t')" "i \<le> length (m_textureIDs s)"
  shows "s' = s \<and> m_loadedTextures s \<le> length (m_textureIDs s)"
  using assms
proof (induction i "(s, t)" arbitrary: t rule: BindGLTextures_loop.induct)
  case (1 i t)
  show ?case
  proof (cases "i < m_loadedTextures s")
    case False
    with "1.prems" show ?thesis by (subst (asm) BindGLTextures_loop.simps) simp
  next
    case True
    show ?thesis
    proof (cases "i < length (m_textureIDs s)")
      case inside: True
      from "1.prems"(1) True inside
      have "BindGLTextures_loop (i + 1)
              (s, t @ [glActiveTexture i, glBindTexture (ID (m_textureIDs s ! i))]) = Inr (s', t')"
        by (subst (asm) BindGLTextures_loop.simps) simp
      from "1.hyps" [OF True inside this] inside show ?thesis by simp
    next
      case False
      with "1.prems"(1) True show ?thesis by (subst (asm) BindGLTextures_loop.simps) simp
    qed
  qed
qed

lemma DefineObjectMaterials_appends:
  "DefineObjectMaterials (s, t) =
     Inr (s\<lparr> m_objectMaterials := m_objectMaterials s @ scene_materials \<rparr>, t)"
  by (simp add: DefineObjectMaterials_def m_objectMaterials_push_back_def scene_materials_def)

lemma SetupSceneLights_present:
  assumes "m_pShaderManager s \<noteq> NULL"
  shows "\<exists>t'. SetupSceneLights (s, t) = Inr (s, t')"
  using assms by (simp add: SetupSceneLights_def m_pShaderManager_call_def)

lemma SetupSceneLights_NULL:
  assumes "m_pShaderManager s = NULL"
  shows "SetupSceneLights (s, t) = Inl NullDereference"
  using assms by (simp add: SetupSceneLights_def m_pShaderManager_call_def)

lemma load_meshes_present:
  assumes "m_basicMeshes s \<noteq> NULL"
  shows "\<exists>t'. load_meshes (s, t) = Inr (s, t')"
  using assms by (simp add: load_meshes_def m_basicMeshes_Load_def)

lemma load_meshes_NULL:
  assumes "m_basicMeshes s = NULL"
  shows "load_meshes (s, t) = Inl NullDereference"
  using assms by (simp add: load_meshes_def m_basicMeshes_Load_def)

lemma PrepareScene_steps:
  "PrepareScene e m =
     (case LoadSceneTextures e m of Inl err \<Rightarrow> Inl err | Inr m1 \<Rightarrow>
      case DefineObjectMaterials m1 of Inl err \<Rightarrow> Inl err | Inr m2 \<Rightarrow>
      case SetupSceneLights m2 of Inl err \<Rightarrow> Inl err | Inr m3 \<Rightarrow> load_meshes m3)"
  by (simp add: PrepareScene_def load_meshes_def split: sum.splits)

lemma PrepareScene_returns:
  assumes "PrepareScene e (s, t) = Inr (s', t')"
  shows "m_objectMaterials s' = m_objectMaterials s @ scene_materials \<and> ready_to_render s'"
proof -
  from assms obtain s1 t1 s2 t2 s3 t3 where
    l: "LoadSceneTextures e (s, t) = Inr (s1, t1)" and
    d: "DefineObjectMaterials (s1, t1) = Inr (s2, t2)" and
    u: "SetupSceneLights (s2, t2) = Inr (s3, t3)" and
    m: "load_meshes (s3, t3) = Inr (s', t')"
    by (auto simp: PrepareScene_steps split: sum.splits)
  from l obtain s0 t0 where
    loads: "seq (map (\<lambda>(f, tg). bReturn_assign (CreateGLTexture e f tg)) scene_textures) (s, t)
            = Inr (s0, t0)" and
    b: "BindGLTextures (s0, t0) = Inr (s1, t1)"
    by (auto simp: LoadSceneTextures_scene_textures seq_append split: sum.splits)
  from b have s1: "s1 = s0" and inside: "m_loadedTextures s0 \<le> length (m_textureIDs s0)"
    using BindGLTextures_loop_returns [of 0 s0 t0 s1 t1] by (simp_all add: BindGLTextures_def)
  from load_all_frame [OF loads] have frame: "m_objectMaterials s0 = m_objectMaterials s" by simp
  from d have s2: "s2 = s1\<lparr> m_objectMaterials := m_objectMaterials s1 @ scene_materials \<rparr>"
    by (simp add: DefineObjectMaterials_appends)
  have shader: "m_pShaderManager s2 \<noteq> NULL"
    using u SetupSceneLights_NULL [of s2 t2] by auto
  with u have s3: "s3 = s2"
    using SetupSceneLights_present [of s2 t2] by auto
  have meshes: "m_basicMeshes s3 \<noteq> NULL"
    using m load_meshes_NULL [of s3 t3] by auto
  with m have s': "s' = s3"
    using load_meshes_present [of s3 t3] by auto
  show ?thesis
    using s1 s2 s3 s' inside frame shader meshes by (simp add: ready_to_render_def)
qed

lemma PrepareScene_constructed:
  "\<exists>s1 t1. PrepareScene e (SceneManager_ctor Object, t) = Inr (s1, t1) \<and>
     m_objectMaterials s1 = scene_materials \<and>
     occupied_tags s1 = map snd (filter (\<lambda>(f, tg). supported e f) scene_textures) \<and>
     texture_registry_inv s1"
proof -
  let ?c = "SceneManager_ctor Object"
  have "m_loadedTextures ?c + length scene_textures \<le> length (m_textureIDs ?c)"
    by (simp add: SceneManager_ctor_def scene_textures_def)
  from load_all [OF this, of e t] obtain s0 t0 where
    loads: "seq (map (\<lambda>(f, tg). bReturn_assign (CreateGLTexture e f tg)) scene_textures) (?c, t)
            = Inr (s0, t0)" and
    occ: "occupied_tags s0 = occupied_tags ?c @ map snd (filter (\<lambda>(f, tg). supported e f) scene_textures)" and
    len: "length (m_textureIDs s0) = length (m_textureIDs ?c)" and
    cnt: "m_loadedTextures s0 = m_loadedTextures ?c + length (filter (\<lambda>(f, tg). supported e f) scene_textures)"
    by blast
  from load_all_frame [OF loads] have frame: "m_objectMaterials s0 = []"
    "m_pShaderManager s0 = Object" "m_basicMeshes s0 = Object"
    by (simp_all add: SceneManager_ctor_def)
  have len16: "length (m_textureIDs s0) = 16"
    using len by (simp add: SceneManager_ctor_def)
  have "length (filter (\<lambda>(f, tg). supported e f) scene_textures) \<le> length scene_textures"
    by (rule length_filter_le)
  then have cnt9: "m_loadedTextures s0 \<le> 9"
    using cnt by (simp add: SceneManager_ctor_def scene_textures_def)
  have occ0: "occupied_tags s0 = map snd (filter (\<lambda>(f, tg). supported e f) scene_textures)"
    using occ by (simp add: occupied_tags_def SceneManager_ctor_def)
  have "distinct (map snd scene_textures)"
    by (simp add: scene_textures_def)
  then have dist: "distinct (occupied_tags s0)"
    unfolding occ0 by (rule distinct_map_filter)
  have inv0: "texture_registry_inv s0"
    using len16 cnt9 dist by (simp add: texture_registry_inv_def)
  obtain t1 where b: "BindGLTextures (s0, t0) = Inr (s0, t1)"
    using BindGLTextures_loop_calls [of s0 0 t0] len16 cnt9 by (simp add: BindGLTextures_def)
  have l: "LoadSceneTextures e (?c, t) = Inr (s0, t1)"
    using loads b by (simp add: LoadSceneTextures_scene_textures seq_append)
  let ?s2 = "s0\<lparr> m_objectMaterials := m_objectMaterials s0 @ scene_materials \<rparr>"
  obtain t3 where u: "SetupSceneLights (?s2, t1) = Inr (?s2, t3)"
    using SetupSceneLights_present [of ?s2 t1] frame by auto
  obtain t4 where m: "load_meshes (?s2, t3) = Inr (?s2, t4)"
    using load_meshes_present [of ?s2 t3] frame by auto
  have "PrepareScene e (?c, t) = Inr (?s2, t4)"
    using l u m by (simp add: PrepareScene_steps DefineObjectMaterials_appends)
  moreover have "m_objectMaterials ?s2 = scene_materials"
    using frame by simp
  moreover have "occupied_tags ?s2 = map snd (filter (\<lambda>(f, tg). supported e f) scene_textures)"
    using occ0 by (simp add: occupied_tags_def)
  moreover have "texture_registry_inv ?s2"
    using inv0 by (simp add: texture_registry_inv_def occupied_tags_def)
  ultimately show ?thesis by blast
qed

text \<open>The shader manager has to be there: on the scene manager constructed with a null
  shader manager the textures load and the materials are defined, and the run ends at the
  first, unguarded call of \<open>SetupSceneLights\<close>.\<close>

lemma PrepareScene_NULL_shader:
  "PrepareScene e (SceneManager_ctor NULL, t) = Inl NullDereference"
proof -
  let ?c = "SceneManager_ctor NULL"
  have "m_loadedTextures ?c + length scene_textures \<le> length (m_textureIDs ?c)"
    by (simp add: SceneManager_ctor_def scene_textures_def)
  from load_all [OF this, of e t] obtain s0 t0 where
    loads: "seq (map (\<lambda>(f, tg). bReturn_assign (CreateGLTexture e f tg)) scene_textures) (?c, t)
            = Inr (s0, t0)" and
    len: "length (m_textureIDs s0) = length (m_textureIDs ?c)" and
    cnt: "m_loadedTextures s0 = m_loadedTextures ?c + length (filter (\<lambda>(f, tg). supported e f) scene_textures)"
    by blast
  from load_all_frame [OF loads] have shader: "m_pShaderManager s0 = NULL"
    by (simp add: SceneManager_ctor_def)
  have "length (filter (\<lambda>(f, tg). supported e f) scene_textures) \<le> length scene_textures"
    by (rule length_filter_le)
  then have inside: "m_loadedTextures s0 \<le> length (m_textureIDs s0)"
    using cnt len by (simp add: SceneManager_ctor_def scene_textures_def)
  obtain t1 where b: "BindGLTextures (s0, t0) = Inr (s0, t1)"
    using BindGLTextures_loop_calls [OF inside, of 0 t0] by (simp add: BindGLTextures_def)
  have l: "LoadSceneTextures e (?c, t) = Inr (s0, t1)"
    using loads b by (simp add: LoadSceneTextures_scene_textures seq_append)
  let ?s2 = "s0\<lparr> m_objectMaterials := m_objectMaterials s0 @ scene_materials \<rparr>"
  have "SetupSceneLights (?s2, t1) = Inl NullDereference"
    using shader by (intro SetupSceneLights_NULL) simp
  then show ?thesis
    using l by (simp add: PrepareScene_steps DefineObjectMaterials_appends)
qed

section \<open>Running \<open>PrepareScene\<close> again\<close>

lemma PrepareScene_sample:
  "\<exists>t1. PrepareScene sample_env (SceneManager_ctor Object, []) = Inr (prepared_scene, t1)"
  by (simp add: PrepareScene_steps load_meshes_def m_basicMeshes_Load_def
      SetupSceneLights_def m_pShaderManager_call_def DefineObjectMaterials_appends
      LoadSceneTextures_def bReturn_assign_def CreateGLTexture_def register_texture_def
      sample_env_def sample_stbi_load_def sample_gen_texture_name_def Let_def
      BindGLTextures_def BindGLTextures_loop_calls prepared_scene_def SceneManager_ctor_def
      eval_nat_numeral)

lemma PrepareScene_sample_again:
  "PrepareScene sample_env (prepared_scene, t) = Inl OutOfBounds"
  by (simp add: PrepareScene_steps
      LoadSceneTextures_def bReturn_assign_def CreateGLTexture_def register_texture_def
      sample_env_def sample_stbi_load_def Let_def prepared_scene_def SceneManager_ctor_def)

lemma PrepareScene_no_files:
  "\<exists>t'. PrepareScene no_files_env (s\<lparr> m_pShaderManager := Object, m_basicMeshes := Object,
                m_loadedTextures := 0 \<rparr>, t) =
     Inr (s\<lparr> m_pShaderManager := Object, m_basicMeshes := Object, m_loadedTextures := 0,
             m_objectMaterials := m_objectMaterials s @ scene_materials \<rparr>, t')"
  by (simp add: PrepareScene_steps load_meshes_def m_basicMeshes_Load_def
      SetupSceneLights_def m_pShaderManager_call_def DefineObjectMaterials_appends
      LoadSceneTextures_def bReturn_assign_def CreateGLTexture_def
      no_files_env_def sample_env_def Let_def
      BindGLTextures_def BindGLTextures_loop.simps)

text \<open>
  \<open>PrepareScene\<close> run twice does not leave what one run leaves. In the concrete
  environment one run on the new object leaves nine textures and seven materials; the
  second run then loads seven more textures and writes the eighth outside the array. With
  an image loader that finds no file the second run completes, and leaves the seven
  materials twice in the list.
\<close>

theorem PrepareScene_twice_counterexample:
  "map_sum id fst (PrepareScene sample_env (SceneManager_ctor Object, [])) = Inr prepared_scene \<and>
   map_sum id fst (seq [PrepareScene sample_env, PrepareScene sample_env]
                     (SceneManager_ctor Object, [])) = Inl OutOfBounds \<and>
   map_sum id (\<lambda>(s, t). m_objectMaterials s)
     (PrepareScene no_files_env (SceneManager_ctor Object, [])) = Inr scene_materials \<and>
   map_sum id (\<lambda>(s, t). m_objectMaterials s)
     (seq [PrepareScene no_files_env, PrepareScene no_files_env] (SceneManager_ctor Object, []))
     = Inr (scene_materials @ scene_materials)"
proof -
  obtain u1 where "PrepareScene sample_env (SceneManager_ctor Object, []) = Inr (prepared_scene, u1)"
    using PrepareScene_sample by blast
  then have sample: "map_sum id fst (PrepareScene sample_env (SceneManager_ctor Object, []))
        = Inr prepared_scene"
    "map_sum id fst (seq [PrepareScene sample_env, PrepareScene sample_env]
                     (SceneManager_ctor Object, [])) = Inl OutOfBounds"
    by (simp_all add: PrepareScene_sample_again)
  have c: "SceneManager_ctor Object = (SceneManager_ctor Object)\<lparr> m_pShaderManager := Object,
             m_basicMeshes := Object, m_loadedTextures := 0 \<rparr>"
    by (simp add: SceneManager_ctor_def)
  obtain t1 where p1: "PrepareScene no_files_env (SceneManager_ctor Object, []) =
     Inr ((SceneManager_ctor Object)\<lparr> m_pShaderManager := Object, m_basicMeshes := Object,
             m_loadedTextures := 0,
             m_objectMaterials := m_objectMaterials (SceneManager_ctor Object) @ scene_materials \<rparr>, t1)"
    using PrepareScene_no_files [of "SceneManager_ctor Object" "[]"] c by auto
  let ?s1 = "(SceneManager_ctor Object)\<lparr> m_objectMaterials := scene_materials \<rparr>"
  have s1: "(SceneManager_ctor Object)\<lparr> m_pShaderManager := Object, m_basicMeshes := Object,
             m_loadedTextures := 0,
             m_objectMaterials := m_objectMaterials (SceneManager_ctor Object) @ scene_materials \<rparr>
            = ?s1\<lparr> m_pShaderManager := Object, m_basicMeshes := Object, m_loadedTextures := 0 \<rparr>"
    by (simp add: SceneManager_ctor_def)
  obtain t2 where p2: "PrepareScene no_files_env
       (?s1\<lparr> m_pShaderManager := Object, m_basicMeshes := Object, m_loadedTextures := 0 \<rparr>, t1) =
     Inr (?s1\<lparr> m_pShaderManager := Object, m_basicMeshes := Object, m_loadedTextures := 0,
             m_objectMaterials := m_objectMaterials ?s1 @ scene_materials \<rparr>, t2)"
    using PrepareScene_no_files [of ?s1 t1] by auto
  have none: "map_sum id (\<lambda>(s, t). m_objectMaterials s)
     (PrepareScene no_files_env (SceneManager_ctor Object, [])) = Inr scene_materials \<and>
   map_sum id (\<lambda>(s, t). m_objectMaterials s)
     (seq [PrepareScene no_files_env, PrepareScene no_files_env] (SceneManager_ctor Object, []))
     = Inr (scene_materials @ scene_materials)"
    using p1 p2 by (simp add: s1)
  show ?thesis
    using sample none by simp
qed

text \<open>
  Claim C3, as the code has it. \<open>PrepareScene\<close> is a setup to be run once, not an
  idempotent one. Run on the scene manager newly constructed with a non-null shader
  manager it completes, and leaves
  exactly the seven materials of \<open>DefineObjectMaterials\<close> in the list, one occupied slot
  for each texture file that loads, in the order of the calls, and the registry invariant.
  Every run that completes, on whatever object, appends the seven materials to the list it
  found.
\<close>

theorem PrepareScene_appends:
  "(\<exists>s1 t1. PrepareScene e (SceneManager_ctor Object, t) = Inr (s1, t1) \<and>
      m_objectMaterials s1 = scene_materials \<and>
      occupied_tags s1 = map snd (filter (\<lambda>(f, tg). supported e f) scene_textures) \<and>
      texture_registry_inv s1) \<and>
   (\<forall>s t s' t'. PrepareScene e (s, t) = Inr (s', t') \<longrightarrow>
      m_objectMaterials s' = m_objectMaterials s @ scene_materials)"
  using PrepareScene_constructed [of e t] PrepareScene_returns [of e] by blast

theorem PrepareScene_appends_witness:
  "\<exists>t1. PrepareScene sample_env (SceneManager_ctor Object, []) = Inr (prepared_scene, t1) \<and>
      m_objectMaterials prepared_scene = m_objectMaterials (SceneManager_ctor Object) @ scene_materials"
proof -
  obtain t1 where p: "PrepareScene sample_env (SceneManager_ctor Object, []) = Inr (prepared_scene, t1)"
    using PrepareScene_sample by blast
  from PrepareScene_appends [of sample_env "[]"]
  have "\<forall>s t s' t'. PrepareScene sample_env (s, t) = Inr (s', t') \<longrightarrow>
      m_objectMaterials s' = m_objectMaterials s @ scene_materials"
    by (rule conjunct2)
  with p have "m_objectMaterials prepared_scene =
      m_objectMaterials (SceneManager_ctor Object) @ scene_materials"
    by blast
  with p show ?thesis by blast
qed

section \<open>Replaying the scene\<close>

text \<open>
  Claim C9. On a prepared object, one left by a run of \<open>PrepareScene\<close>, \<open>RenderScene\<close>
  completes from every trace, returns the object unchanged and appends the calls
  \<open>calls_of (RenderScene e) s\<close>, which depend on the object and not on the calls made
  before. Two runs in a row therefore send the same sequence of calls twice and leave the
  texture registry, the material list and the two pointers as they were.
\<close>

theorem RenderScene_replay:
  assumes "PrepareScene e (s0, t0) = Inr (s, t1)"
  shows "RenderScene e (s, t) = Inr (s, t @ calls_of (RenderScene e) s) \<and>
         seq [RenderScene e, RenderScene e] (s, t) =
           Inr (s, (t @ calls_of (RenderScene e) s) @ calls_of (RenderScene e) s)"
proof -
  from PrepareScene_returns [OF assms] have ready: "ready_to_render s" by simp
  have once: "RenderScene e (s, u) = Inr (s, u @ calls_of (RenderScene e) s)" for u
    using ready by (rule RenderScene_read_only)
  show ?thesis
    by (simp add: once)
qed

theorem RenderScene_replay_witness:
  "\<exists>t1. PrepareScene sample_env (SceneManager_ctor Object, []) = Inr (prepared_scene, t1) \<and>
      RenderScene sample_env (prepared_scene, t1) =
        Inr (prepared_scene, t1 @ calls_of (RenderScene sample_env) prepared_scene) \<and>
      seq [RenderScene sample_env, RenderScene sample_env] (prepared_scene, t1) =
        Inr (prepared_scene, (t1 @ calls_of (RenderScene sample_env) prepared_scene)
                               @ calls_of (RenderScene sample_env) prepared_scene)"
proof -
  obtain t1 where p: "PrepareScene sample_env (SceneManager_ctor Object, []) = Inr (prepared_scene, t1)"
    using PrepareScene_sample by blast
  from RenderScene_replay [OF p, of t1] p show ?thesis by blast
qed

end
